theory Spec2Isabelle
  imports Main "HOL-Library.Multiset"
begin

section \<open>JavaScript values used by the tournament engine\<close>

text \<open>
  Scores are JavaScript numbers. Every score the engine stores is the result of
  \<^verbatim>\<open>parseInt(x, 10)\<close> or of arithmetic on such results, so a number is modelled as
  either an integer or \<^verbatim>\<open>NaN\<close>. Integers are unbounded here; the model agrees with
  double arithmetic inside the safe integer range. A field that may hold
  \<^verbatim>\<open>null\<close> is an \<open>option\<close>.
\<close>

datatype jsnum = NaN | JInt int

text \<open>An argument handed to \<^verbatim>\<open>parseInt\<close>: a string (as read from a form field, or the
  rendering of a non-integral number) or a number that is already integral or NaN.\<close>

datatype jsval = Str string | Num jsnum

fun js_add :: "jsnum \<Rightarrow> jsnum \<Rightarrow> jsnum" where
  "js_add (JInt a) (JInt b) = JInt (a + b)"
| "js_add _ _ = NaN"

fun js_sub :: "jsnum \<Rightarrow> jsnum \<Rightarrow> jsnum" where
  "js_sub (JInt a) (JInt b) = JInt (a - b)"
| "js_sub _ _ = NaN"

fun js_gt :: "jsnum \<Rightarrow> jsnum \<Rightarrow> bool" where
  "js_gt (JInt a) (JInt b) = (a > b)"
| "js_gt _ _ = False"

fun js_lt :: "jsnum \<Rightarrow> jsnum \<Rightarrow> bool" where
  "js_lt (JInt a) (JInt b) = (a < b)"
| "js_lt _ _ = False"

text \<open>\<^verbatim>\<open>a !== b\<close> on numbers: NaN differs from everything, itself included.\<close>

fun js_neq :: "jsnum \<Rightarrow> jsnum \<Rightarrow> bool" where
  "js_neq (JInt a) (JInt b) = (a \<noteq> b)"
| "js_neq _ _ = True"

text \<open>\<^verbatim>\<open>a === b\<close> on numbers.\<close>

definition js_eq :: "jsnum \<Rightarrow> jsnum \<Rightarrow> bool" where
  "js_eq a b = (\<not> js_neq a b)"

text \<open>\<^verbatim>\<open>isNaN(x)\<close>.\<close>

fun isNaN :: "jsnum \<Rightarrow> bool" where
  "isNaN NaN = True"
| "isNaN (JInt _) = False"

text \<open>ToNumber of a score field: \<^verbatim>\<open>null\<close> converts to 0.\<close>

fun to_num :: "jsnum option \<Rightarrow> jsnum" where
  "to_num None = JInt 0"
| "to_num (Some n) = n"

subsection \<open>parseInt with radix 10\<close>

definition is_space :: "char \<Rightarrow> bool" where
  "is_space c = (c = CHR '' '' \<or> (9 \<le> (of_char c :: nat) \<and> (of_char c :: nat) \<le> 13))"

definition is_digit :: "char \<Rightarrow> bool" where
  "is_digit c = (48 \<le> (of_char c :: nat) \<and> (of_char c :: nat) \<le> 57)"

definition digit_val :: "char \<Rightarrow> int" where
  "digit_val c = int (of_char c) - 48"

definition digits_val :: "string \<Rightarrow> int" where
  "digits_val ds = foldl (\<lambda>acc c. acc * 10 + digit_val c) 0 ds"

text \<open>Leading white space is skipped, one sign is read, then the longest run of decimal
  digits; anything after it is ignored, and no digit at all gives NaN. Characters are
  bytes here, so the white space is that of the ASCII range.\<close>

definition parseInt_str :: "string \<Rightarrow> jsnum" where
  "parseInt_str s =
     (let t = dropWhile is_space s;
          neg = (case t of [] \<Rightarrow> False | c # _ \<Rightarrow> c = CHR ''-'');
          u = (case t of [] \<Rightarrow> [] | c # r \<Rightarrow> if c = CHR ''-'' \<or> c = CHR ''+'' then r else t);
          ds = takeWhile is_digit u
      in if ds = [] then NaN
         else JInt ((if neg then - 1 else 1) * digits_val ds))"

text \<open>\<^verbatim>\<open>parseInt(x, 10)\<close>. A number that is integral or NaN is rendered and parsed back to
  itself.\<close>

fun parseInt :: "jsval \<Rightarrow> jsnum" where
  "parseInt (Str s) = parseInt_str s"
| "parseInt (Num n) = n"

section \<open>Data model\<close>

text \<open>A team object: the placeholder is \<^verbatim>\<open>{ id: null, name: 'TBD' }\<close>.\<close>

record team =
  team_id :: "string option"
  team_name :: string

definition TBD :: team where
  "TBD = \<lparr>team_id = None, team_name = ''TBD''\<rparr>"

record extra_time =
  et_played :: bool
  et_homeScore :: "jsnum option"
  et_awayScore :: "jsnum option"

record penalty_shootout =
  pen_played :: bool
  pen_homeScore :: "jsnum option"
  pen_awayScore :: "jsnum option"
  pen_winner :: "team option"

text \<open>
  A match, as the \<^verbatim>\<open>Match\<close> class and the plain match objects of \<^verbatim>\<open>helpers.js\<close> hold it.
  Dates, venue and the statistics block are left out: no operation below reads them.
  \<open>match_no\<close> is the \<^verbatim>\<open>match\<close> field that \<^verbatim>\<open>helpers.js\<close> gives its knockout matches.
\<close>

record match =
  match_id :: string
  homeTeam :: team
  awayTeam :: team
  homeScore :: "jsnum option"
  awayScore :: "jsnum option"
  played :: bool
  matchday :: "int option"
  round_name :: "string option"
  roundIndex :: "int option"
  group_name :: "string option"
  match_no :: "int option"
  winner :: "team option"
  extraTime :: extra_time
  penalties :: penalty_shootout

definition no_extra_time :: extra_time where
  "no_extra_time = \<lparr>et_played = False, et_homeScore = None, et_awayScore = None\<rparr>"

definition no_penalties :: penalty_shootout where
  "no_penalties = \<lparr>pen_played = False, pen_homeScore = None, pen_awayScore = None, pen_winner = None\<rparr>"

section \<open>The Match class (match.js)\<close>

text \<open>
  The configuration object handed to the constructor, which is also the shape
  \<^verbatim>\<open>serialize\<close> returns. A property that is absent is \<open>None\<close>; a score can in
  addition be present and \<^verbatim>\<open>null\<close>, which is \<open>Some None\<close>.
\<close>

record match_config =
  cfg_id :: "string option"
  cfg_homeTeam :: "team option"
  cfg_awayTeam :: "team option"
  cfg_homeScore :: "jsnum option option"
  cfg_awayScore :: "jsnum option option"
  cfg_played :: "bool option"
  cfg_matchday :: "int option"
  cfg_round :: "string option"
  cfg_roundIndex :: "int option"
  cfg_group :: "string option"
  cfg_winner :: "team option"
  cfg_extraTime :: "extra_time option"
  cfg_penalties :: "penalty_shootout option"

text \<open>\<^verbatim>\<open>x || d\<close> for a string: the empty string is falsy.\<close>

definition or_str :: "string option \<Rightarrow> string option" where
  "or_str x = (case x of None \<Rightarrow> None | Some s \<Rightarrow> if s = [] then None else Some s)"

text \<open>\<^verbatim>\<open>x || null\<close> for a number: zero is falsy.\<close>

definition or_int :: "int option \<Rightarrow> int option" where
  "or_int x = (case x of None \<Rightarrow> None | Some n \<Rightarrow> if n = 0 then None else Some n)"

text \<open>The constructor. \<open>fresh\<close> is the identifier \<^verbatim>\<open>_generateId()\<close> would produce.\<close>

definition Match :: "string \<Rightarrow> match_config \<Rightarrow> match" where
  "Match fresh config =
     \<lparr>match_id = (case or_str (cfg_id config) of None \<Rightarrow> fresh | Some i \<Rightarrow> i),
      homeTeam = (case cfg_homeTeam config of None \<Rightarrow> TBD | Some t \<Rightarrow> t),
      awayTeam = (case cfg_awayTeam config of None \<Rightarrow> TBD | Some t \<Rightarrow> t),
      homeScore = (case cfg_homeScore config of None \<Rightarrow> None | Some v \<Rightarrow> v),
      awayScore = (case cfg_awayScore config of None \<Rightarrow> None | Some v \<Rightarrow> v),
      played = (case cfg_played config of None \<Rightarrow> False | Some b \<Rightarrow> b),
      matchday = or_int (cfg_matchday config),
      round_name = or_str (cfg_round config),
      roundIndex = or_int (cfg_roundIndex config),
      group_name = or_str (cfg_group config),
      match_no = None,
      winner = cfg_winner config,
      extraTime = (case cfg_extraTime config of None \<Rightarrow> no_extra_time | Some e \<Rightarrow> e),
      penalties = (case cfg_penalties config of None \<Rightarrow> no_penalties | Some p \<Rightarrow> p)\<rparr>"

text \<open>The empty configuration \<^verbatim>\<open>{}\<close>.\<close>

definition empty_config :: match_config where
  "empty_config =
     \<lparr>cfg_id = None, cfg_homeTeam = None, cfg_awayTeam = None, cfg_homeScore = None,
      cfg_awayScore = None, cfg_played = None, cfg_matchday = None, cfg_round = None,
      cfg_roundIndex = None, cfg_group = None, cfg_winner = None, cfg_extraTime = None,
      cfg_penalties = None\<rparr>"

definition updateResult :: "match \<Rightarrow> jsval \<Rightarrow> jsval \<Rightarrow> match" where
  "updateResult m hs as =
     (let h = parseInt hs; a = parseInt as
      in m\<lparr>homeScore := Some h, awayScore := Some a, played := True,
            winner := (if js_gt h a then Some (homeTeam m)
                       else if js_lt h a then Some (awayTeam m)
                       else None)\<rparr>)"

definition updateExtraTimeResult :: "match \<Rightarrow> jsval \<Rightarrow> jsval \<Rightarrow> match" where
  "updateExtraTimeResult m hs as =
     (let h = parseInt hs; a = parseInt as;
          aggHomeScore = js_add (to_num (homeScore m)) h;
          aggAwayScore = js_add (to_num (awayScore m)) a
      in m\<lparr>extraTime := \<lparr>et_played = True, et_homeScore = Some h, et_awayScore = Some a\<rparr>,
            winner := (if js_gt aggHomeScore aggAwayScore then Some (homeTeam m)
                       else if js_lt aggHomeScore aggAwayScore then Some (awayTeam m)
                       else None)\<rparr>)"

text \<open>The shootout record is written before the scores are compared; a level shootout
  only logs an error.\<close>

definition updatePenaltyResult :: "match \<Rightarrow> jsval \<Rightarrow> jsval \<Rightarrow> match" where
  "updatePenaltyResult m hs as =
     (let h = parseInt hs; a = parseInt as;
          p = (penalties m)\<lparr>pen_homeScore := Some h, pen_awayScore := Some a, pen_played := True\<rparr>
      in if js_gt h a then
           m\<lparr>winner := Some (homeTeam m), penalties := p\<lparr>pen_winner := Some (homeTeam m)\<rparr>\<rparr>
         else if js_lt h a then
           m\<lparr>winner := Some (awayTeam m), penalties := p\<lparr>pen_winner := Some (awayTeam m)\<rparr>\<rparr>
         else m\<lparr>penalties := p\<rparr>)"

definition serialize :: "match \<Rightarrow> match_config" where
  "serialize m =
     \<lparr>cfg_id = Some (match_id m), cfg_homeTeam = Some (homeTeam m),
      cfg_awayTeam = Some (awayTeam m), cfg_homeScore = Some (homeScore m),
      cfg_awayScore = Some (awayScore m), cfg_played = Some (played m),
      cfg_matchday = matchday m, cfg_round = round_name m, cfg_roundIndex = roundIndex m,
      cfg_group = group_name m, cfg_winner = winner m, cfg_extraTime = Some (extraTime m),
      cfg_penalties = Some (penalties m)\<rparr>"

definition deserialize :: "string \<Rightarrow> match_config \<Rightarrow> match" where
  "deserialize fresh data = Match fresh data"

section \<open>Array helpers\<close>

text \<open>\<^verbatim>\<open>Array.prototype.findIndex\<close>: the first index whose element satisfies the predicate;
  \<open>None\<close> stands for \<^verbatim>\<open>-1\<close>.\<close>

fun findIndex :: "('a \<Rightarrow> bool) \<Rightarrow> 'a list \<Rightarrow> nat option" where
  "findIndex P [] = None"
| "findIndex P (x # xs) = (if P x then Some 0 else map_option Suc (findIndex P xs))"

text \<open>\<^verbatim>\<open>xs[i]\<close>: \<^verbatim>\<open>undefined\<close> out of range.\<close>

definition at :: "'a list \<Rightarrow> nat \<Rightarrow> 'a option" where
  "at xs i = (if i < length xs then Some (xs ! i) else None)"

text \<open>In-place update of the object stored at index \<open>i\<close>.\<close>

definition upd :: "nat \<Rightarrow> ('a \<Rightarrow> 'a) \<Rightarrow> 'a list \<Rightarrow> 'a list" where
  "upd i f xs = (if i < length xs then xs[i := f (xs ! i)] else xs)"

text \<open>
  \<^verbatim>\<open>Array.prototype.sort(compare)\<close>. The sort is stable, and a comparator result that is
  NaN counts as 0. For a consistent comparator every conforming engine returns the
  list that stable insertion computes; for an inconsistent one the language leaves the
  order to the engine, and the model then fixes insertion order.
\<close>

fun positive :: "jsnum \<Rightarrow> bool" where
  "positive (JInt n) = (n > 0)"
| "positive NaN = False"

fun insert_by :: "('a \<Rightarrow> 'a \<Rightarrow> jsnum) \<Rightarrow> 'a \<Rightarrow> 'a list \<Rightarrow> 'a list" where
  "insert_by cmp x [] = [x]"
| "insert_by cmp x (y # ys) = (if positive (cmp x y) then y # insert_by cmp x ys else x # y # ys)"

definition js_sort :: "('a \<Rightarrow> 'a \<Rightarrow> jsnum) \<Rightarrow> 'a list \<Rightarrow> 'a list" where
  "js_sort cmp xs = foldr (insert_by cmp) xs []"

section \<open>Standings (helpers.js and group.js)\<close>

record standing =
  row_id :: "string option"
  row_name :: string
  row_played :: int
  won :: int
  drawn :: int
  lost :: int
  goalsFor :: jsnum
  goalsAgainst :: jsnum
  goalDifference :: jsnum
  points :: int

text \<open>The row a team starts with: its own properties and zeroed statistics.\<close>

definition initial_row :: "team \<Rightarrow> standing" where
  "initial_row t =
     \<lparr>row_id = team_id t, row_name = team_name t, row_played = 0, won = 0, drawn = 0,
      lost = 0, goalsFor = JInt 0, goalsAgainst = JInt 0, goalDifference = JInt 0, points = 0\<rparr>"

text \<open>The team a row stands for.\<close>

definition team_of :: "standing \<Rightarrow> team" where
  "team_of r = \<lparr>team_id = row_id r, team_name = row_name r\<rparr>"

text \<open>
  The body of the loop over the matches, the same statements in
  \<^verbatim>\<open>Helpers.calculateGroupStandings\<close> and in \<^verbatim>\<open>Group.recalculateStandings\<close>. The rows are
  updated in place, one statement after the other, so a match of a team against itself
  updates the same row twice.
\<close>

definition processMatch :: "standing list \<Rightarrow> match \<Rightarrow> standing list" where
  "processMatch standings m =
     (case (played m, homeScore m, awayScore m) of
        (True, Some h, Some a) \<Rightarrow>
          (case (findIndex (\<lambda>r. row_id r = team_id (homeTeam m)) standings,
                 findIndex (\<lambda>r. row_id r = team_id (awayTeam m)) standings) of
             (Some hi, Some ai) \<Rightarrow>
               (let s1 = upd hi (\<lambda>r. r\<lparr>row_played := row_played r + 1\<rparr>) standings;
                    s2 = upd ai (\<lambda>r. r\<lparr>row_played := row_played r + 1\<rparr>) s1;
                    s3 = upd hi (\<lambda>r. r\<lparr>goalsFor := js_add (goalsFor r) h\<rparr>) s2;
                    s4 = upd hi (\<lambda>r. r\<lparr>goalsAgainst := js_add (goalsAgainst r) a\<rparr>) s3;
                    s5 = upd ai (\<lambda>r. r\<lparr>goalsFor := js_add (goalsFor r) a\<rparr>) s4;
                    s6 = upd ai (\<lambda>r. r\<lparr>goalsAgainst := js_add (goalsAgainst r) h\<rparr>) s5
                in if js_gt h a then
                     upd ai (\<lambda>r. r\<lparr>lost := lost r + 1\<rparr>)
                       (upd hi (\<lambda>r. r\<lparr>points := points r + 3\<rparr>)
                          (upd hi (\<lambda>r. r\<lparr>won := won r + 1\<rparr>) s6))
                   else if js_lt h a then
                     upd hi (\<lambda>r. r\<lparr>lost := lost r + 1\<rparr>)
                       (upd ai (\<lambda>r. r\<lparr>points := points r + 3\<rparr>)
                          (upd ai (\<lambda>r. r\<lparr>won := won r + 1\<rparr>) s6))
                   else
                     upd ai (\<lambda>r. r\<lparr>points := points r + 1\<rparr>)
                       (upd ai (\<lambda>r. r\<lparr>drawn := drawn r + 1\<rparr>)
                          (upd hi (\<lambda>r. r\<lparr>points := points r + 1\<rparr>)
                             (upd hi (\<lambda>r. r\<lparr>drawn := drawn r + 1\<rparr>) s6))))
           | _ \<Rightarrow> standings)
      | _ \<Rightarrow> standings)"

text \<open>The table before sorting: all matches processed, then the goal differences set.\<close>

definition tally :: "team list \<Rightarrow> match list \<Rightarrow> standing list" where
  "tally teams ms =
     map (\<lambda>r. r\<lparr>goalDifference := js_sub (goalsFor r) (goalsAgainst r)\<rparr>)
       (foldl processMatch (map initial_row teams) ms)"

text \<open>
  The comparator of \<^verbatim>\<open>Helpers.sortGroupStandings\<close>. \<open>lc\<close> is \<^verbatim>\<open>String.prototype.localeCompare\<close>,
  whose result depends on the host's collation and is therefore a parameter. The
  comparator goes from goals scored straight to the names.
\<close>

definition compareStandings :: "(string \<Rightarrow> string \<Rightarrow> int) \<Rightarrow> standing \<Rightarrow> standing \<Rightarrow> jsnum" where
  "compareStandings lc a b =
     (if points b \<noteq> points a then JInt (points b - points a)
      else if js_neq (goalDifference b) (goalDifference a)
        then js_sub (goalDifference b) (goalDifference a)
      else if js_neq (goalsFor b) (goalsFor a) then js_sub (goalsFor b) (goalsFor a)
      else JInt (lc (row_name a) (row_name b)))"

definition sortGroupStandings :: "(string \<Rightarrow> string \<Rightarrow> int) \<Rightarrow> standing list \<Rightarrow> standing list" where
  "sortGroupStandings lc standings = js_sort (compareStandings lc) standings"

definition calculateGroupStandings ::
  "(string \<Rightarrow> string \<Rightarrow> int) \<Rightarrow> team list \<Rightarrow> match list \<Rightarrow> standing list" where
  "calculateGroupStandings lc teams ms = sortGroupStandings lc (tally teams ms)"

subsection \<open>The Group class\<close>

record group =
  group_id :: string
  group_label :: string
  teams :: "team list"
  group_matches :: "match list"
  standings :: "standing list"

text \<open>\<^verbatim>\<open>Group._getHeadToHeadResult\<close>: the first played match between the two teams decides;
  \<^verbatim>\<open>null\<close> scores compare as 0.\<close>

definition getHeadToHeadResult :: "match list \<Rightarrow> string option \<Rightarrow> string option \<Rightarrow> int" where
  "getHeadToHeadResult ms teamAId teamBId =
     (case find (\<lambda>m. ((team_id (homeTeam m) = teamAId \<and> team_id (awayTeam m) = teamBId) \<or>
                        (team_id (homeTeam m) = teamBId \<and> team_id (awayTeam m) = teamAId)) \<and>
                       played m) ms of
        None \<Rightarrow> 0
      | Some m \<Rightarrow>
          (if team_id (homeTeam m) = teamAId then
             (if js_gt (to_num (homeScore m)) (to_num (awayScore m)) then 1
              else if js_lt (to_num (homeScore m)) (to_num (awayScore m)) then - 1
              else 0)
           else
             (if js_gt (to_num (awayScore m)) (to_num (homeScore m)) then 1
              else if js_lt (to_num (awayScore m)) (to_num (homeScore m)) then - 1
              else 0)))"

text \<open>The comparator of \<^verbatim>\<open>Group.sortStandings\<close>: the head-to-head result is returned as
  it is, so a positive result (team \<open>a\<close> won) sorts \<open>a\<close> after \<open>b\<close>.\<close>

definition compareGroupStandings ::
  "(string \<Rightarrow> string \<Rightarrow> int) \<Rightarrow> match list \<Rightarrow> standing \<Rightarrow> standing \<Rightarrow> jsnum" where
  "compareGroupStandings lc ms a b =
     (if points b \<noteq> points a then JInt (points b - points a)
      else if js_neq (goalDifference b) (goalDifference a)
        then js_sub (goalDifference b) (goalDifference a)
      else if js_neq (goalsFor b) (goalsFor a) then js_sub (goalsFor b) (goalsFor a)
      else (let headToHeadResult = getHeadToHeadResult ms (row_id a) (row_id b)
            in if headToHeadResult \<noteq> 0 then JInt headToHeadResult
               else JInt (lc (row_name a) (row_name b))))"

definition sortStandings :: "(string \<Rightarrow> string \<Rightarrow> int) \<Rightarrow> group \<Rightarrow> group" where
  "sortStandings lc g =
     g\<lparr>standings := js_sort (compareGroupStandings lc (group_matches g)) (standings g)\<rparr>"

definition recalculateStandings :: "(string \<Rightarrow> string \<Rightarrow> int) \<Rightarrow> group \<Rightarrow> group" where
  "recalculateStandings lc g =
     sortStandings lc (g\<lparr>standings := tally (teams g) (group_matches g)\<rparr>)"

text \<open>The constructor of \<^verbatim>\<open>Group\<close>, from a configuration that gives every property: an
  empty identifier or name is replaced, and the standings are computed when there are
  teams and no standings yet. \<open>fresh\<close> is the identifier \<^verbatim>\<open>_generateId()\<close> would produce.\<close>

definition Group :: "(string \<Rightarrow> string \<Rightarrow> int) \<Rightarrow> string \<Rightarrow> group \<Rightarrow> group" where
  "Group lc fresh config =
     (let g = config\<lparr>group_id := (if group_id config = [] then fresh else group_id config),
                     group_label := (if group_label config = [] then ''Group'' else group_label config)\<rparr>
      in if length (teams g) > 0 \<and> length (standings g) = 0 then recalculateStandings lc g else g)"

text \<open>\<^verbatim>\<open>Group.updateMatchResult\<close>: the updated group and the success flag.\<close>

definition Group_updateMatchResult ::
  "(string \<Rightarrow> string \<Rightarrow> int) \<Rightarrow> group \<Rightarrow> string \<Rightarrow> jsval \<Rightarrow> jsval \<Rightarrow> group \<times> bool" where
  "Group_updateMatchResult lc g matchId hs as =
     (case findIndex (\<lambda>m. match_id m = matchId) (group_matches g) of
        None \<Rightarrow> (g, False)
      | Some matchIdx \<Rightarrow>
          (recalculateStandings lc
             (g\<lparr>group_matches := upd matchIdx (\<lambda>m. updateResult m hs as) (group_matches g)\<rparr>),
           True))"

text \<open>One possible \<^verbatim>\<open>localeCompare\<close>, used where an example needs a concrete one:
  comparison by character code.\<close>

fun codeUnitCompare :: "string \<Rightarrow> string \<Rightarrow> int" where
  "codeUnitCompare [] [] = 0"
| "codeUnitCompare [] (y # ys) = - 1"
| "codeUnitCompare (x # xs) [] = 1"
| "codeUnitCompare (x # xs) (y # ys) =
     (if (of_char x :: nat) < of_char y then - 1
      else if (of_char y :: nat) < of_char x then 1
      else codeUnitCompare xs ys)"

section \<open>Group fixtures (helpers.js and match.js)\<close>

text \<open>Decimal rendering of a natural number, as a template literal renders it.\<close>

function show_nat :: "nat \<Rightarrow> string" where
  "show_nat n = (if n < 10 then [char_of (48 + n)] else show_nat (n div 10) @ [char_of (48 + n mod 10)])"
  by pat_completeness auto
termination
  by (relation "measure id") auto

text \<open>An identifier in a template literal: \<^verbatim>\<open>null\<close> is rendered as the word.\<close>

definition show_id :: "string option \<Rightarrow> string" where
  "show_id i = (case i of None \<Rightarrow> ''null'' | Some s \<Rightarrow> s)"

text \<open>\<open>now\<close> is the rendering of \<^verbatim>\<open>Date.now()\<close> at the moment of the call.\<close>

definition generateMatchId :: "string \<Rightarrow> string option \<Rightarrow> string option \<Rightarrow> nat \<Rightarrow> string" where
  "generateMatchId now homeTeamId awayTeamId md =
     ''match_'' @ show_id homeTeamId @ ''_'' @ show_id awayTeamId @ ''_'' @ show_nat md @ ''_'' @ now"

text \<open>The fixed pattern of a group of four: three matchdays of two pairings, each
  pairing the indices of the home and of the away team.\<close>

definition matchPattern :: "(nat \<times> nat) list list" where
  "matchPattern = [[(0, 3), (1, 2)], [(0, 1), (2, 3)], [(2, 0), (3, 1)]]"

text \<open>A plain match object as \<^verbatim>\<open>helpers.js\<close> writes it for the group stage.\<close>

definition plain_group_match :: "string \<Rightarrow> nat \<Rightarrow> team \<Rightarrow> team \<Rightarrow> match" where
  "plain_group_match i md h a =
     \<lparr>match_id = i, homeTeam = h, awayTeam = a, homeScore = None, awayScore = None,
      played = False, matchday = Some (int md), round_name = None, roundIndex = None,
      group_name = None, match_no = None, winner = None, extraTime = no_extra_time,
      penalties = no_penalties\<rparr>"

record matchday_schedule =
  sched_matchday :: nat
  sched_matches :: "match list"

text \<open>\<^verbatim>\<open>Helpers.generateMatchSchedule\<close>. \<open>clock k\<close> is what \<^verbatim>\<open>Date.now()\<close> renders to when the
  \<open>k\<close>-th match is created.\<close>

definition generateMatchSchedule :: "(nat \<Rightarrow> string) \<Rightarrow> team list \<Rightarrow> matchday_schedule list" where
  "generateMatchSchedule clock ts =
     (if length ts \<noteq> 4 then []
      else map (\<lambda>(matchdayIndex, matchdayPattern).
                  \<lparr>sched_matchday = matchdayIndex + 1,
                   sched_matches =
                     map (\<lambda>(matchIndex, (home, away)).
                            plain_group_match
                              (generateMatchId (clock (2 * matchdayIndex + matchIndex))
                                 (team_id (ts ! home)) (team_id (ts ! away)) (matchdayIndex + 1))
                              (matchdayIndex + 1) (ts ! home) (ts ! away))
                       (enumerate 0 matchdayPattern)\<rparr>)
             (enumerate 0 matchPattern))"

text \<open>\<^verbatim>\<open>Match.createGroupMatches\<close>. \<open>fresh k\<close> is the identifier generated for the \<open>k\<close>-th
  match.\<close>

definition createGroupMatches :: "(nat \<Rightarrow> string) \<Rightarrow> team list \<Rightarrow> string \<Rightarrow> match list" where
  "createGroupMatches fresh ts groupId =
     (if length ts \<noteq> 4 then []
      else concat
             (map (\<lambda>(matchdayIndex, matchdayPattern).
                     map (\<lambda>(matchIndex, (home, away)).
                            Match (fresh (2 * matchdayIndex + matchIndex))
                              (empty_config\<lparr>cfg_homeTeam := Some (ts ! home),
                                             cfg_awayTeam := Some (ts ! away),
                                             cfg_matchday := Some (int matchdayIndex + 1),
                                             cfg_group := Some groupId\<rparr>))
                       (enumerate 0 matchdayPattern))
                (enumerate 0 matchPattern)))"

text \<open>\<^verbatim>\<open>Group.generateMatches\<close>.\<close>

definition generateMatches :: "(nat \<Rightarrow> string) \<Rightarrow> group \<Rightarrow> group" where
  "generateMatches fresh g =
     (if length (teams g) \<noteq> 4 then g
      else g\<lparr>group_matches := createGroupMatches fresh (teams g) (group_id g)\<rparr>)"

text \<open>The matches of a schedule in order, as \<^verbatim>\<open>Tournament._initializeGroups\<close> flattens them.\<close>

definition flatten_schedule :: "matchday_schedule list \<Rightarrow> match list" where
  "flatten_schedule sched = concat (map sched_matches sched)"

section \<open>The tournament model (helpers.js and tournament.js)\<close>

text \<open>\<^verbatim>\<open>Helpers.updateMatchResult\<close>: the scores are parsed and stored without any check.\<close>

definition Helpers_updateMatchResult :: "match \<Rightarrow> jsval \<Rightarrow> jsval \<Rightarrow> match" where
  "Helpers_updateMatchResult m hs as =
     (let h = parseInt hs; a = parseInt as
      in m\<lparr>homeScore := Some h, awayScore := Some a, played := True,
            winner := (if js_gt h a then Some (homeTeam m)
                       else if js_lt h a then Some (awayTeam m)
                       else None)\<rparr>)"

definition areAllMatchesPlayed :: "match list \<Rightarrow> bool" where
  "areAllMatchesPlayed ms = list_all played ms"

text \<open>A qualified team: the standings row and the name of its group.\<close>

record qualifier =
  q_team :: standing
  q_group :: string

record qualified_teams =
  winners :: "qualifier list"
  runnersUp :: "qualifier list"
  bestThirds :: "qualifier list"

definition determineQualifiedTeams :: "(string \<Rightarrow> string \<Rightarrow> int) \<Rightarrow> group list \<Rightarrow> qualified_teams" where
  "determineQualifiedTeams lc groups =
     \<lparr>winners = concat (map (\<lambda>g. case at (standings g) 0 of
                                     None \<Rightarrow> []
                                   | Some r \<Rightarrow> [\<lparr>q_team = r, q_group = group_label g\<rparr>]) groups),
      runnersUp = concat (map (\<lambda>g. case at (standings g) 1 of
                                       None \<Rightarrow> []
                                     | Some r \<Rightarrow> [\<lparr>q_team = r, q_group = group_label g\<rparr>]) groups),
      bestThirds =
        (if length groups = 3 \<or> length groups = 6 then
           take (if length groups = 3 then 2 else 4)
             (js_sort (\<lambda>a b. compareStandings lc (q_team a) (q_team b))
                (concat (map (\<lambda>g. case at (standings g) 2 of
                                      None \<Rightarrow> []
                                    | Some r \<Rightarrow> [\<lparr>q_team = r, q_group = group_label g\<rparr>]) groups)))
         else [])\<rparr>"

text \<open>A plain knockout match object as \<^verbatim>\<open>helpers.js\<close> writes it. The standings row of a
  qualifier becomes the team of the match; its identifier and name are kept.\<close>

definition plain_knockout_match :: "string \<Rightarrow> string \<Rightarrow> nat \<Rightarrow> team \<Rightarrow> team \<Rightarrow> match" where
  "plain_knockout_match i r n h a =
     \<lparr>match_id = i, homeTeam = h, awayTeam = a, homeScore = None, awayScore = None,
      played = False, matchday = None, round_name = Some r, roundIndex = None,
      group_name = None, match_no = Some (int n), winner = None, extraTime = no_extra_time,
      penalties = no_penalties\<rparr>"

definition Helpers_generateRoundOf16 ::
  "qualifier list \<Rightarrow> qualifier list \<Rightarrow> qualifier list \<Rightarrow> match list" where
  "Helpers_generateRoundOf16 ws rs bs =
     concat (map (\<lambda>(index, (home, away)).
                    case (home, away) of
                      (Some h, Some a) \<Rightarrow>
                        [plain_knockout_match (''r16_'' @ show_nat index) ''Round of 16'' (index + 1)
                           (team_of (q_team h)) (team_of (q_team a))]
                    | _ \<Rightarrow> [])
               (enumerate 0
                  [(at ws 0, at rs 3), (at ws 1, at rs 2), (at ws 2, at rs 1), (at ws 3, at rs 0),
                   (at ws 4, at bs 0), (at ws 5, at bs 1), (at ws 6, at bs 2), (at ws 7, at bs 3)]))"

text \<open>\<^verbatim>\<open>Helpers.generateQuarterfinals\<close>: the qualifiers are concatenated and paired two by
  two in that order.\<close>

definition Helpers_generateQuarterfinals ::
  "qualifier list \<Rightarrow> qualifier list \<Rightarrow> qualifier list \<Rightarrow> match list" where
  "Helpers_generateQuarterfinals ws rs bs =
     (if length ws > 0 \<or> length rs > 0 \<or> length bs > 0 then
        (let allTeams = ws @ rs @ bs
         in concat (map (\<lambda>i. if i * 2 + 1 < length allTeams then
                                 [plain_knockout_match (''qf_'' @ show_nat i) ''Quarterfinals'' (i + 1)
                                    (team_of (q_team (allTeams ! (i * 2))))
                                    (team_of (q_team (allTeams ! (i * 2 + 1))))]
                               else [])
                      [0 ..< 4]))
      else
        map (\<lambda>i. plain_knockout_match (''qf_'' @ show_nat i) ''Quarterfinals'' (i + 1)
                    \<lparr>team_id = Some (''qf_home_'' @ show_nat i), team_name = ''TBD''\<rparr>
                    \<lparr>team_id = Some (''qf_away_'' @ show_nat i), team_name = ''TBD''\<rparr>)
          [0 ..< 4])"

definition getSuffix :: "nat \<Rightarrow> string" where
  "getSuffix position0 =
     (let position = position0 + 1; j = position mod 10; k = position mod 100
      in if j = 1 \<and> k \<noteq> 11 then show_nat position @ ''st''
         else if j = 2 \<and> k \<noteq> 12 then show_nat position @ ''nd''
         else if j = 3 \<and> k \<noteq> 13 then show_nat position @ ''rd''
         else show_nat position @ ''th'')"

definition Helpers_generateSemifinals :: "qualifier list \<Rightarrow> match list" where
  "Helpers_generateSemifinals ws =
     (case ws of
        w0 # _ \<Rightarrow>
          concat (map (\<lambda>i. if i * 2 + 1 < length ws * 4 then
                              [plain_knockout_match (''sf_'' @ show_nat i) ''Semifinals'' (i + 1)
                                 (if i * 2 < length ws * 4
                                  then \<lparr>team_id = Some (''sf_direct_'' @ show_nat (i * 2)),
                                        team_name = ''Group '' @ q_group w0 @ '' '' @ getSuffix (i * 2)\<rparr>
                                  else \<lparr>team_id = Some (''sf_direct_'' @ show_nat i @ ''_home''),
                                        team_name = ''TBD''\<rparr>)
                                 (if i * 2 + 1 < length ws * 4
                                  then \<lparr>team_id = Some (''sf_direct_'' @ show_nat (i * 2 + 1)),
                                        team_name = ''Group '' @ q_group w0 @ '' '' @ getSuffix (i * 2 + 1)\<rparr>
                                  else \<lparr>team_id = Some (''sf_direct_'' @ show_nat i @ ''_away''),
                                        team_name = ''TBD''\<rparr>)]
                            else [])
                   [0 ..< 2])
      | [] \<Rightarrow>
          map (\<lambda>i. plain_knockout_match (''sf_'' @ show_nat i) ''Semifinals'' (i + 1)
                      \<lparr>team_id = Some (''sf_home_'' @ show_nat i), team_name = ''TBD''\<rparr>
                      \<lparr>team_id = Some (''sf_away_'' @ show_nat i), team_name = ''TBD''\<rparr>)
            [0 ..< 2])"

definition generateFinal :: "match list" where
  "generateFinal =
     [plain_knockout_match ''final'' ''Final'' 1
        \<lparr>team_id = Some ''final_home'', team_name = ''TBD''\<rparr>
        \<lparr>team_id = Some ''final_away'', team_name = ''TBD''\<rparr>]"

text \<open>A knockout round: its name and its matches in bracket order.\<close>

record round =
  round_title :: string
  round_matches :: "match list"

definition Helpers_generateKnockoutStage :: "qualified_teams \<Rightarrow> int \<Rightarrow> round list" where
  "Helpers_generateKnockoutStage q groupCount =
     (if groupCount = 1 then
        [\<lparr>round_title = ''Semifinals'', round_matches = Helpers_generateSemifinals (take 1 (winners q))\<rparr>,
         \<lparr>round_title = ''Final'', round_matches = generateFinal\<rparr>]
      else if groupCount = 2 then
        [\<lparr>round_title = ''Quarterfinals'',
          round_matches = Helpers_generateQuarterfinals (winners q) (runnersUp q) []\<rparr>,
         \<lparr>round_title = ''Semifinals'', round_matches = Helpers_generateSemifinals []\<rparr>,
         \<lparr>round_title = ''Final'', round_matches = generateFinal\<rparr>]
      else if groupCount = 3 then
        [\<lparr>round_title = ''Quarterfinals'',
          round_matches = Helpers_generateQuarterfinals (winners q) (runnersUp q) (bestThirds q)\<rparr>,
         \<lparr>round_title = ''Semifinals'', round_matches = Helpers_generateSemifinals []\<rparr>,
         \<lparr>round_title = ''Final'', round_matches = generateFinal\<rparr>]
      else if groupCount = 4 then
        [\<lparr>round_title = ''Quarterfinals'',
          round_matches = Helpers_generateQuarterfinals (winners q) (runnersUp q) []\<rparr>,
         \<lparr>round_title = ''Semifinals'', round_matches = Helpers_generateSemifinals []\<rparr>,
         \<lparr>round_title = ''Final'', round_matches = generateFinal\<rparr>]
      else if groupCount = 6 \<or> groupCount = 8 then
        [\<lparr>round_title = ''Round of 16'',
          round_matches = Helpers_generateRoundOf16 (winners q) (runnersUp q) (bestThirds q)\<rparr>,
         \<lparr>round_title = ''Quarterfinals'', round_matches = Helpers_generateQuarterfinals [] [] []\<rparr>,
         \<lparr>round_title = ''Semifinals'', round_matches = Helpers_generateSemifinals []\<rparr>,
         \<lparr>round_title = ''Final'', round_matches = generateFinal\<rparr>]
      else [])"

datatype stage = Setup | GroupStage | KnockoutStage | Complete

datatype status = Active | Completed

text \<open>An entry of the event log; time stamps are left out.\<close>

datatype event =
    Match_updated string jsval jsval
  | Group_stage_completed "string list" "string list" "string list"
  | Team_advanced string "string option" string
  | Tournament_completed string

record tournament =
  tournament_id :: string
  tournament_name :: string
  groupCount :: int
  currentStage :: stage
  status :: status
  groups :: "group list"
  knockout :: "round list option"
  events :: "event list"

text \<open>The first container (group or round) holding a match with the identifier, and the
  position of that match in it: the search loops of the update operations.\<close>

fun locate :: "('a \<Rightarrow> match list) \<Rightarrow> string \<Rightarrow> 'a list \<Rightarrow> (nat \<times> nat) option" where
  "locate ms matchId [] = None"
| "locate ms matchId (c # cs) =
     (case findIndex (\<lambda>m. match_id m = matchId) (ms c) of
        Some pos \<Rightarrow> Some (0, pos)
      | None \<Rightarrow> map_option (\<lambda>(i, pos). (Suc i, pos)) (locate ms matchId cs))"

definition addEvent :: "event \<Rightarrow> tournament \<Rightarrow> tournament" where
  "addEvent e t = t\<lparr>events := events t @ [e]\<rparr>"

definition checkGroupsCompletion :: "(string \<Rightarrow> string \<Rightarrow> int) \<Rightarrow> tournament \<Rightarrow> tournament" where
  "checkGroupsCompletion lc t =
     (if list_all (\<lambda>g. areAllMatchesPlayed (group_matches g)) (groups t) \<and> currentStage t = GroupStage
      then (let qualifiedTeams = determineQualifiedTeams lc (groups t)
            in addEvent
                 (Group_stage_completed
                    (map (\<lambda>item. row_name (q_team item)) (winners qualifiedTeams))
                    (map (\<lambda>item. row_name (q_team item)) (runnersUp qualifiedTeams))
                    (map (\<lambda>item. row_name (q_team item)) (bestThirds qualifiedTeams)))
                 (t\<lparr>knockout := Some (Helpers_generateKnockoutStage qualifiedTeams (groupCount t)),
                    currentStage := KnockoutStage\<rparr>))
      else t)"

text \<open>Writing into one match of one round, in place.\<close>

definition upd_match :: "nat \<Rightarrow> nat \<Rightarrow> (match \<Rightarrow> match) \<Rightarrow> round list \<Rightarrow> round list" where
  "upd_match i pos f rs = upd i (\<lambda>r. r\<lparr>round_matches := upd pos f (round_matches r)\<rparr>) rs"

text \<open>\<^verbatim>\<open>Tournament._updateKnockoutProgression\<close>, on the rounds of the tournament. In the last
  round only the status changes: the current stage is not written.\<close>

definition updateKnockoutProgression :: "tournament \<Rightarrow> match \<Rightarrow> tournament" where
  "updateKnockoutProgression t m =
     (case winner m of
        None \<Rightarrow> t
      | Some w \<Rightarrow>
          (case knockout t of
             None \<Rightarrow> t
           | Some rs \<Rightarrow>
               (case locate round_matches (match_id m) rs of
                  None \<Rightarrow> t
                | Some (roundIdx, matchPosition) \<Rightarrow>
                    if roundIdx + 1 < length rs then
                      (let nextRound = rs ! (roundIdx + 1); nextMatchIndex = matchPosition div 2
                       in if nextMatchIndex < length (round_matches nextRound) then
                            addEvent (Team_advanced (team_name w) (round_name m) (round_title nextRound))
                              (t\<lparr>knockout := Some (upd_match (roundIdx + 1) nextMatchIndex
                                    (\<lambda>n. if matchPosition mod 2 = 0 then n\<lparr>homeTeam := w\<rparr>
                                          else n\<lparr>awayTeam := w\<rparr>) rs)\<rparr>)
                          else t)
                    else addEvent (Tournament_completed (team_name w)) (t\<lparr>status := Completed\<rparr>))))"

text \<open>\<^verbatim>\<open>Tournament.updateMatchResult\<close>: the updated tournament and the success flag.\<close>

definition Tournament_updateMatchResult ::
  "(string \<Rightarrow> string \<Rightarrow> int) \<Rightarrow> tournament \<Rightarrow> string \<Rightarrow> jsval \<Rightarrow> jsval \<Rightarrow> tournament \<times> bool" where
  "Tournament_updateMatchResult lc t matchId hs as =
     (let r =
        (if currentStage t = GroupStage then
           (case locate group_matches matchId (groups t) of
              None \<Rightarrow> None
            | Some (gi, matchIdx) \<Rightarrow>
                (let gs = upd gi (\<lambda>g.
                            (let ms = upd matchIdx (\<lambda>m. Helpers_updateMatchResult m hs as) (group_matches g)
                             in g\<lparr>group_matches := ms,
                                  standings := calculateGroupStandings lc (teams g) ms\<rparr>)) (groups t);
                     t1 = t\<lparr>groups := gs\<rparr>
                 in Some (if areAllMatchesPlayed (group_matches (gs ! gi))
                          then checkGroupsCompletion lc t1 else t1)))
         else if currentStage t = KnockoutStage then
           (case knockout t of
              None \<Rightarrow> None
            | Some rs \<Rightarrow>
                (case locate round_matches matchId rs of
                   None \<Rightarrow> None
                 | Some (ri, matchIdx) \<Rightarrow>
                     (let rs1 = upd_match ri matchIdx (\<lambda>m. Helpers_updateMatchResult m hs as) rs
                      in Some (updateKnockoutProgression (t\<lparr>knockout := Some rs1\<rparr>)
                                 (round_matches (rs1 ! ri) ! matchIdx)))))
         else None)
      in case r of
           None \<Rightarrow> (t, False)
         | Some t1 \<Rightarrow> (addEvent (Match_updated matchId hs as) t1, True))"

section \<open>The knockout controller (knockoutController.js)\<close>

definition to_lower :: "char \<Rightarrow> char" where
  "to_lower c = (if 65 \<le> (of_char c :: nat) \<and> (of_char c :: nat) \<le> 90
                 then char_of ((of_char c :: nat) + 32) else c)"

text \<open>\<^verbatim>\<open>name.toLowerCase().replace(/\s+/g, '_')\<close>.\<close>

function slug :: "string \<Rightarrow> string" where
  "slug [] = []"
| "slug (c # cs) =
     (if is_space c then CHR ''_'' # slug (dropWhile is_space cs) else to_lower c # slug cs)"
  by pat_completeness auto
termination
  by (relation "measure length") (auto simp: length_dropWhile_le less_Suc_eq_le)

text \<open>\<open>fresh\<close> is the identifier the \<^verbatim>\<open>Match\<close> constructor would generate; every match
  built here is given an identifier of its own.\<close>

definition generateEmptyRound :: "string \<Rightarrow> nat \<Rightarrow> string \<Rightarrow> int \<Rightarrow> match list" where
  "generateEmptyRound fresh cnt roundName roundIdx =
     map (\<lambda>i. Match fresh
                 (empty_config\<lparr>cfg_id := Some (slug roundName @ ''_'' @ show_nat i),
                                cfg_homeTeam := Some TBD, cfg_awayTeam := Some TBD,
                                cfg_round := Some roundName, cfg_roundIndex := Some roundIdx\<rparr>))
       [0 ..< cnt]"

text \<open>\<^verbatim>\<open>a || b\<close> on two array reads.\<close>

definition or_else :: "'a option \<Rightarrow> 'a option \<Rightarrow> 'a option" where
  "or_else a b = (case a of None \<Rightarrow> b | Some x \<Rightarrow> Some x)"

text \<open>The match objects for a list of pairings: a pairing with a missing side is skipped,
  and the identifier carries the index of the pairing.\<close>

definition pairing_matches ::
  "string \<Rightarrow> string \<Rightarrow> string \<Rightarrow> int \<Rightarrow> (qualifier option \<times> qualifier option) list \<Rightarrow> match list" where
  "pairing_matches fresh prefix roundName roundIdx pairings =
     concat (map (\<lambda>(index, (home, away)).
                    case (home, away) of
                      (Some h, Some a) \<Rightarrow>
                        [Match fresh
                           (empty_config\<lparr>cfg_id := Some (prefix @ show_nat index),
                                          cfg_homeTeam := Some (team_of (q_team h)),
                                          cfg_awayTeam := Some (team_of (q_team a)),
                                          cfg_round := Some roundName,
                                          cfg_roundIndex := Some roundIdx\<rparr>)]
                    | _ \<Rightarrow> [])
               (enumerate 0 pairings))"

definition generateRoundOf16 ::
  "string \<Rightarrow> qualifier list \<Rightarrow> qualifier list \<Rightarrow> qualifier list \<Rightarrow> match list" where
  "generateRoundOf16 fresh ws rs bs =
     pairing_matches fresh ''r16_'' ''Round of 16'' 0
       [(at ws 0, at rs 3), (at ws 1, at rs 2), (at ws 2, at rs 1), (at ws 3, at rs 0),
        (at ws 4, at bs 0), (at ws 5, at bs 1),
        (or_else (at ws 6) (at bs 2), or_else (at bs 3) (at rs 5)),
        (or_else (at ws 7) (at bs 3), or_else (at bs 2) (at rs 4))]"

text \<open>The pairings of the default branch: the qualifiers two by two, at most four pairs.\<close>

definition adjacent_pairings :: "qualifier list \<Rightarrow> (qualifier option \<times> qualifier option) list" where
  "adjacent_pairings allTeams =
     concat (map (\<lambda>k. if 2 * k < min 8 (length allTeams) \<and> 2 * k + 1 < length allTeams
                       then [(at allTeams (2 * k), at allTeams (2 * k + 1))] else [])
               [0 ..< 4])"

text \<open>\<^verbatim>\<open>KnockoutController.generateQuarterfinals\<close>: the pairings depend on the number of
  group winners.\<close>

definition generateQuarterfinals ::
  "string \<Rightarrow> qualifier list \<Rightarrow> qualifier list \<Rightarrow> qualifier list \<Rightarrow> match list" where
  "generateQuarterfinals fresh ws rs bs =
     (if length ws > 0 \<or> length rs > 0 \<or> length bs > 0 then
        pairing_matches fresh ''qf_'' ''Quarterfinals'' 1
          (if length ws = 2 then
             [(at ws 0, at rs 1), (at ws 1, at rs 0)]
           else if length ws = 3 then
             [(at ws 0, at bs 0), (at ws 1, at rs 2), (at ws 2, at rs 1), (at rs 0, at bs 1)]
           else if length ws = 4 then
             [(at ws 0, at rs 3), (at ws 1, at rs 2), (at ws 2, at rs 1), (at ws 3, at rs 0)]
           else adjacent_pairings (ws @ rs @ bs))
      else generateEmptyRound fresh 4 ''Quarterfinals'' 1)"

definition generateSemifinals :: "string \<Rightarrow> qualifier list \<Rightarrow> match list" where
  "generateSemifinals fresh ts =
     (if length ts > 0 then
        (if length ts \<ge> 4 then
           [Match fresh
              (empty_config\<lparr>cfg_id := Some ''sf_0'',
                             cfg_homeTeam := Some (team_of (q_team (ts ! 0))),
                             cfg_awayTeam := Some (team_of (q_team (ts ! 3))),
                             cfg_round := Some ''Semifinals'',
                             cfg_roundIndex := Some (if length ts > 4 then 2 else 1)\<rparr>),
            Match fresh
              (empty_config\<lparr>cfg_id := Some ''sf_1'',
                             cfg_homeTeam := Some (team_of (q_team (ts ! 1))),
                             cfg_awayTeam := Some (team_of (q_team (ts ! 2))),
                             cfg_round := Some ''Semifinals'',
                             cfg_roundIndex := Some (if length ts > 4 then 2 else 1)\<rparr>)]
         else [])
      else generateEmptyRound fresh 2 ''Semifinals'' 2)"

definition generateFinals :: "string \<Rightarrow> match list" where
  "generateFinals fresh =
     [Match fresh
        (empty_config\<lparr>cfg_id := Some ''final_0'', cfg_homeTeam := Some TBD,
                       cfg_awayTeam := Some TBD, cfg_round := Some ''Final'',
                       cfg_roundIndex := Some 3\<rparr>)]"

text \<open>
  The state of the controllers: the rounds of the knockout controller, whether it holds a
  reference to the tournament controller (set by \<^verbatim>\<open>init\<close>, which wires all controllers),
  the groups of the group controller, and the tournament, stage and loading flag of the
  tournament controller. Storage and event listeners are outside the engine and are
  left out; a failing save is caught where it happens.
\<close>

record controllers =
  kc_rounds :: "round list"
  kc_linked :: bool
  gc_groups :: "group list"
  tc_tournament :: "tournament option"
  tc_currentStage :: stage
  tc_isLoading :: bool

text \<open>\<^verbatim>\<open>KnockoutController.generateKnockoutStage\<close>: the rounds it returns; it also stores them,
  except for an unsupported group count.\<close>

definition knockout_rounds :: "string \<Rightarrow> qualified_teams \<Rightarrow> int \<Rightarrow> round list option" where
  "knockout_rounds fresh q n =
     (if n = 1 then
        Some [\<lparr>round_title = ''Semifinals'', round_matches = generateSemifinals fresh (winners q)\<rparr>,
              \<lparr>round_title = ''Final'', round_matches = generateFinals fresh\<rparr>]
      else if n = 2 \<or> n = 3 \<or> n = 4 then
        Some [\<lparr>round_title = ''Quarterfinals'',
               round_matches = generateQuarterfinals fresh (winners q) (runnersUp q) (bestThirds q)\<rparr>,
              \<lparr>round_title = ''Semifinals'', round_matches = generateSemifinals fresh []\<rparr>,
              \<lparr>round_title = ''Final'', round_matches = generateFinals fresh\<rparr>]
      else if n = 6 \<or> n = 8 then
        Some [\<lparr>round_title = ''Round of 16'',
               round_matches = generateRoundOf16 fresh (winners q) (runnersUp q) (bestThirds q)\<rparr>,
              \<lparr>round_title = ''Quarterfinals'', round_matches = generateEmptyRound fresh 4 [] 0\<rparr>,
              \<lparr>round_title = ''Semifinals'', round_matches = generateEmptyRound fresh 2 [] 0\<rparr>,
              \<lparr>round_title = ''Final'', round_matches = generateFinals fresh\<rparr>]
      else None)"

definition generateKnockoutStage ::
  "string \<Rightarrow> controllers \<Rightarrow> qualified_teams \<Rightarrow> int \<Rightarrow> controllers \<times> round list" where
  "generateKnockoutStage fresh c q n =
     (case knockout_rounds fresh q n of
        None \<Rightarrow> (c, [])
      | Some rs \<Rightarrow> (c\<lparr>kc_rounds := rs\<rparr>, rs))"

text \<open>\<^verbatim>\<open>progressWinnerToNextRound\<close>: nothing is written without a winner, in the last round,
  or when the next round has no match at the target index.\<close>

definition progressWinnerToNextRound :: "round list \<Rightarrow> match \<Rightarrow> nat \<Rightarrow> nat \<Rightarrow> round list" where
  "progressWinnerToNextRound rs m roundIdx matchIdx =
     (case winner m of
        None \<Rightarrow> rs
      | Some w \<Rightarrow>
          if roundIdx + 1 \<ge> length rs then rs
          else (let nextRoundIndex = roundIdx + 1; nextMatchIndex = matchIdx div 2
                in if nextRoundIndex < length rs \<and>
                      nextMatchIndex < length (round_matches (rs ! nextRoundIndex))
                   then upd_match nextRoundIndex nextMatchIndex
                          (\<lambda>n. if matchIdx mod 2 = 0 then n\<lparr>homeTeam := w\<rparr> else n\<lparr>awayTeam := w\<rparr>) rs
                   else rs))"

definition isTournamentComplete :: "round list \<Rightarrow> bool" where
  "isTournamentComplete rs = (if length rs = 0 then False else list_all played (round_matches (last rs)))"

definition getTournamentWinner :: "round list \<Rightarrow> team option" where
  "getTournamentWinner rs =
     (if \<not> isTournamentComplete rs \<or> length rs = 0 then None
      else (case round_matches (last rs) of [] \<Rightarrow> None | finalMatch # _ \<Rightarrow> winner finalMatch))"

subsection \<open>The tournament controller (tournamentController.js)\<close>

text \<open>\<^verbatim>\<open>saveTournament\<close>, as far as it changes the tournament object.\<close>

definition saveTournament :: "controllers \<Rightarrow> controllers" where
  "saveTournament c =
     (case tc_tournament c of
        None \<Rightarrow> c
      | Some t \<Rightarrow>
          c\<lparr>tc_tournament := Some (t\<lparr>currentStage := tc_currentStage c, groups := gc_groups c,
                                     knockout := Some (kc_rounds c)\<rparr>)\<rparr>)"

definition setCurrentStage :: "stage \<Rightarrow> controllers \<Rightarrow> controllers" where
  "setCurrentStage s c =
     (let c1 = c\<lparr>tc_currentStage := s\<rparr>
      in case tc_tournament c1 of
           None \<Rightarrow> c1
         | Some t \<Rightarrow> saveTournament (c1\<lparr>tc_tournament := Some (t\<lparr>currentStage := s\<rparr>)\<rparr>))"

definition notifyKnockoutMatchUpdated :: "controllers \<Rightarrow> controllers" where
  "notifyKnockoutMatchUpdated c = (if tc_isLoading c then c else saveTournament c)"

datatype error = TypeError

text \<open>\<^verbatim>\<open>notifyTournamentCompleted\<close>: writing the status of a tournament that is
  \<^verbatim>\<open>null\<close> throws.\<close>

definition notifyTournamentCompleted :: "team option \<Rightarrow> controllers \<Rightarrow> error + controllers" where
  "notifyTournamentCompleted w c =
     (if tc_isLoading c then Inr c
      else (case tc_tournament c of
              None \<Rightarrow> Inl TypeError
            | Some t \<Rightarrow>
                Inr (saveTournament
                       (setCurrentStage Complete (c\<lparr>tc_tournament := Some (t\<lparr>status := Completed\<rparr>)\<rparr>)))))"

text \<open>The extra-time or penalty scores the view hands over: \<^verbatim>\<open>{ home, away }\<close>.\<close>

record score_pair =
  sp_home :: jsnum
  sp_away :: jsnum

text \<open>
  \<^verbatim>\<open>KnockoutController.updateMatchResult\<close>, the part that rewrites the match: regulation
  result, then extra time, then penalties, then the attempt to make sure of a winner,
  which compares the same regulation scores again.
\<close>

definition knockout_result ::
  "match \<Rightarrow> jsnum \<Rightarrow> jsnum \<Rightarrow> score_pair option \<Rightarrow> score_pair option \<Rightarrow> match" where
  "knockout_result m0 homeScore' awayScore' extraTimeScores penaltyScores =
     (let m1 = updateResult m0 (Num homeScore') (Num awayScore');
          m2 = (case extraTimeScores of
                  None \<Rightarrow> m1
                | Some et \<Rightarrow>
                    (let totalHomeScore = js_add (to_num (homeScore m1)) (sp_home et);
                         totalAwayScore = js_add (to_num (awayScore m1)) (sp_away et)
                     in m1\<lparr>extraTime := \<lparr>et_played = True, et_homeScore = Some (sp_home et),
                                          et_awayScore = Some (sp_away et)\<rparr>,
                           winner := (if js_gt totalHomeScore totalAwayScore then Some (homeTeam m1)
                                      else if js_gt totalAwayScore totalHomeScore then Some (awayTeam m1)
                                      else None)\<rparr>));
          m3 = (case penaltyScores of
                  None \<Rightarrow> m2
                | Some p \<Rightarrow>
                    (let pe = (penalties m2)\<lparr>pen_played := True, pen_homeScore := Some (sp_home p),
                                              pen_awayScore := Some (sp_away p)\<rparr>
                     in if js_gt (sp_home p) (sp_away p) then
                          m2\<lparr>winner := Some (homeTeam m2),
                             penalties := pe\<lparr>pen_winner := Some (homeTeam m2)\<rparr>\<rparr>
                        else if js_lt (sp_home p) (sp_away p) then
                          m2\<lparr>winner := Some (awayTeam m2),
                             penalties := pe\<lparr>pen_winner := Some (awayTeam m2)\<rparr>\<rparr>
                        else m2\<lparr>penalties := pe\<rparr>))
      in case winner m3 of
           Some _ \<Rightarrow> m3
         | None \<Rightarrow>
             if js_gt homeScore' awayScore' then m3\<lparr>winner := Some (homeTeam m3)\<rparr>
             else if js_gt awayScore' homeScore' then m3\<lparr>winner := Some (awayTeam m3)\<rparr>
             else m3)"

text \<open>\<^verbatim>\<open>KnockoutController.updateMatchResult\<close>: the new state and the success flag, or the
  exception that escapes.\<close>

definition KnockoutController_updateMatchResult ::
  "controllers \<Rightarrow> string \<Rightarrow> jsnum \<Rightarrow> jsnum \<Rightarrow> score_pair option \<Rightarrow> score_pair option
     \<Rightarrow> error + (controllers \<times> bool)" where
  "KnockoutController_updateMatchResult c matchId hs as extraTimeScores penaltyScores =
     (case locate round_matches matchId (kc_rounds c) of
        None \<Rightarrow> Inr (c, False)
      | Some (roundIdx, matchIdx) \<Rightarrow>
          (let rs1 = upd_match roundIdx matchIdx
                       (\<lambda>m. knockout_result m hs as extraTimeScores penaltyScores) (kc_rounds c);
               m = round_matches (rs1 ! roundIdx) ! matchIdx;
               rs2 = progressWinnerToNextRound rs1 m roundIdx matchIdx;
               c2 = c\<lparr>kc_rounds := rs2\<rparr>
           in if kc_linked c2 then
                (let c3 = notifyKnockoutMatchUpdated c2
                 in if isTournamentComplete (kc_rounds c3) then
                      (case notifyTournamentCompleted (getTournamentWinner (kc_rounds c3)) c3 of
                         Inl e \<Rightarrow> Inl e
                       | Inr c4 \<Rightarrow> Inr (c4, True))
                    else Inr (c3, True))
              else Inr (c2, True)))"

section \<open>The result forms (matchView.js and knockoutView.js)\<close>

text \<open>How a save handler ends: with an alert, or with the modal closed.\<close>

datatype outcome = Alert string | Closed

text \<open>A score read from a form field is acceptable when it parses to a number that is
  not negative.\<close>

definition invalid_score :: "jsnum \<Rightarrow> bool" where
  "invalid_score n = (isNaN n \<or> js_lt n (JInt 0))"

text \<open>
  \<^verbatim>\<open>MatchView._saveMatchResult\<close> for a group match. \<open>submit\<close> is the call of
  \<^verbatim>\<open>MatchController.updateMatchResult\<close> for the match of the form; the two strings are the
  values of the score fields. The handler returns before the call when a score is
  not acceptable.
\<close>

definition saveMatchResult ::
  "('s \<Rightarrow> jsnum \<Rightarrow> jsnum \<Rightarrow> error + ('s \<times> bool)) \<Rightarrow> 's \<Rightarrow> string \<Rightarrow> string
     \<Rightarrow> error + ('s \<times> outcome)" where
  "saveMatchResult submit s homeValue awayValue =
     (let h = parseInt_str homeValue; a = parseInt_str awayValue
      in if invalid_score h \<or> invalid_score a then
           Inr (s, Alert ''Please enter valid scores (non-negative numbers)'')
         else (case submit s h a of
                 Inl e \<Rightarrow> Inl e
               | Inr (s1, success) \<Rightarrow>
                   Inr (s1, if success then Closed
                            else Alert ''Failed to update match result. Please try again.'')))"

text \<open>
  \<^verbatim>\<open>KnockoutView._saveKnockoutMatchResult\<close>. The extra-time and penalty fields count only
  when their box is ticked (\<open>Some\<close>). A level shootout is refused here, before any
  call; a level regulation score with no box ticked is passed on.
\<close>

definition saveKnockoutMatchResult ::
  "('s \<Rightarrow> jsnum \<Rightarrow> jsnum \<Rightarrow> score_pair option \<Rightarrow> score_pair option \<Rightarrow> error + ('s \<times> bool))
     \<Rightarrow> 's \<Rightarrow> string \<Rightarrow> string \<Rightarrow> (string \<times> string) option \<Rightarrow> (string \<times> string) option
     \<Rightarrow> error + ('s \<times> outcome)" where
  "saveKnockoutMatchResult submit s homeValue awayValue extraTimeFields penaltyFields =
     (let h = parseInt_str homeValue; a = parseInt_str awayValue
      in if invalid_score h \<or> invalid_score a then
           Inr (s, Alert ''Please enter valid scores (non-negative numbers)'')
         else
           (let et = map_option (\<lambda>(hv, av). \<lparr>sp_home = parseInt_str hv, sp_away = parseInt_str av\<rparr>)
                       extraTimeFields;
                pen = map_option (\<lambda>(hv, av). \<lparr>sp_home = parseInt_str hv, sp_away = parseInt_str av\<rparr>)
                        penaltyFields
            in if (case et of None \<Rightarrow> False
                   | Some e \<Rightarrow> invalid_score (sp_home e) \<or> invalid_score (sp_away e)) then
                 Inr (s, Alert ''Please enter valid extra time scores'')
               else if (case pen of None \<Rightarrow> False
                        | Some p \<Rightarrow> invalid_score (sp_home p) \<or> invalid_score (sp_away p)) then
                 Inr (s, Alert ''Please enter valid penalty scores'')
               else if (case pen of None \<Rightarrow> False | Some p \<Rightarrow> js_eq (sp_home p) (sp_away p)) then
                 Inr (s, Alert ''Penalty shootout cannot end in a tie. Please ensure one team wins.'')
               else (case submit s h a et pen of
                       Inl e \<Rightarrow> Inl e
                     | Inr (s1, success) \<Rightarrow>
                         Inr (s1, if success then Closed
                                  else Alert ''Failed to update match result. Please try again.''))))"

section \<open>A worked group\<close>

text \<open>Four teams, their fixtures, and two sets of three results. In both sets A and B end
  level on points, goal difference and goals scored, and have played each other: in the
  first B beat A, in the second A beat B.\<close>

definition teamA :: team where "teamA = \<lparr>team_id = Some ''a'', team_name = ''A''\<rparr>"
definition teamB :: team where "teamB = \<lparr>team_id = Some ''b'', team_name = ''B''\<rparr>"
definition teamC :: team where "teamC = \<lparr>team_id = Some ''c'', team_name = ''C''\<rparr>"
definition teamD :: team where "teamD = \<lparr>team_id = Some ''d'', team_name = ''D''\<rparr>"

definition example_teams :: "team list" where
  "example_teams = [teamA, teamB, teamC, teamD]"

definition example_fixtures :: "match list" where
  "example_fixtures = flatten_schedule (generateMatchSchedule (\<lambda>k. ''0'') example_teams)"

definition enter :: "nat \<Rightarrow> int \<Rightarrow> int \<Rightarrow> match list \<Rightarrow> match list" where
  "enter i h a ms = upd i (\<lambda>m. Helpers_updateMatchResult m (Num (JInt h)) (Num (JInt a))) ms"

text \<open>A 0-1 B, A 1-0 D, B 0-1 C.\<close>

definition results_b_beat_a :: "match list" where
  "results_b_beat_a = enter 1 0 1 (enter 0 1 0 (enter 2 0 1 example_fixtures))"

text \<open>A 1-0 B, A 0-1 D, B 1-0 C.\<close>

definition results_a_beat_b :: "match list" where
  "results_a_beat_b = enter 1 1 0 (enter 0 0 1 (enter 2 1 0 example_fixtures))"

text \<open>The same group as a \<^verbatim>\<open>Group\<close> object with generated matches \<open>m0\<close> to \<open>m5\<close>.\<close>

definition example_group :: group where
  "example_group =
     generateMatches (\<lambda>k. ''m'' @ show_nat k)
       (Group codeUnitCompare ''group_1''
          \<lparr>group_id = ''g'', group_label = ''A'', teams = example_teams, group_matches = [],
           standings = []\<rparr>)"

definition group_result :: "string \<Rightarrow> int \<Rightarrow> int \<Rightarrow> group \<Rightarrow> group" where
  "group_result matchId h a g =
     fst (Group_updateMatchResult codeUnitCompare g matchId (Num (JInt h)) (Num (JInt a)))"

definition group_b_beat_a :: group where
  "group_b_beat_a = group_result ''m1'' 0 1 (group_result ''m0'' 1 0 (group_result ''m2'' 0 1 example_group))"

definition group_a_beat_b :: group where
  "group_a_beat_b = group_result ''m1'' 1 0 (group_result ''m0'' 0 1 (group_result ''m2'' 1 0 example_group))"

text \<open>A played match of A against a team that is not in the group.\<close>

definition stray_match :: match where
  "stray_match =
     Helpers_updateMatchResult
       (plain_group_match ''stray'' 1 teamA \<lparr>team_id = Some ''z'', team_name = ''Z''\<rparr>)
       (Num (JInt 5)) (Num (JInt 0))"

section \<open>A worked knockout stage\<close>

text \<open>A group match that has not been played.\<close>

definition unplayed_match :: match where
  "unplayed_match =
     Match ''m0'' (empty_config\<lparr>cfg_homeTeam := Some teamA, cfg_awayTeam := Some teamD,
                                 cfg_matchday := Some 1, cfg_group := Some ''g''\<rparr>)"

text \<open>A final between A and B, and the state of the controllers when it is the only
  match of the only round.\<close>

definition example_final :: match where
  "example_final =
     Match ''m'' (empty_config\<lparr>cfg_id := Some ''final_0'', cfg_homeTeam := Some teamA,
                                cfg_awayTeam := Some teamB, cfg_round := Some ''Final'',
                                cfg_roundIndex := Some 3\<rparr>)"

definition final_only :: controllers where
  "final_only =
     \<lparr>kc_rounds = [\<lparr>round_title = ''Final'', round_matches = [example_final]\<rparr>],
      kc_linked = True,
      gc_groups = [],
      tc_tournament =
        Some \<lparr>tournament_id = ''t1'', tournament_name = ''Cup'', groupCount = 2,
              currentStage = KnockoutStage, status = Active, groups = [],
              knockout = Some [\<lparr>round_title = ''Final'', round_matches = [example_final]\<rparr>],
              events = []\<rparr>,
      tc_currentStage = KnockoutStage,
      tc_isLoading = False\<rparr>"

text \<open>The same final as the tournament model holds it.\<close>

definition final_tournament :: tournament where
  "final_tournament =
     \<lparr>tournament_id = ''t1'', tournament_name = ''Cup'', groupCount = 2,
      currentStage = KnockoutStage, status = Active, groups = [],
      knockout = Some [\<lparr>round_title = ''Final'', round_matches = [example_final]\<rparr>],
      events = []\<rparr>"

text \<open>The qualifiers of a tournament of two groups, and the bracket the knockout
  controller generates for them.\<close>

definition qual :: "team \<Rightarrow> string \<Rightarrow> qualifier" where
  "qual t g = \<lparr>q_team = initial_row t, q_group = g\<rparr>"

definition two_groups :: qualified_teams where
  "two_groups =
     \<lparr>winners = [qual teamA ''A'', qual teamC ''B''],
      runnersUp = [qual teamB ''A'', qual teamD ''B''],
      bestThirds = []\<rparr>"

definition example_bracket :: "round list" where
  "example_bracket = (case knockout_rounds ''m'' two_groups 2 of None \<Rightarrow> [] | Some rs \<Rightarrow> rs)"

definition bracket_state :: controllers where
  "bracket_state =
     \<lparr>kc_rounds = example_bracket, kc_linked = True, gc_groups = [],
      tc_tournament =
        Some \<lparr>tournament_id = ''t1'', tournament_name = ''Cup'', groupCount = 2,
              currentStage = KnockoutStage, status = Active, groups = [],
              knockout = Some example_bracket, events = []\<rparr>,
      tc_currentStage = KnockoutStage,
      tc_isLoading = False\<rparr>"

text \<open>The qualifiers of a tournament of four groups.\<close>

definition four_groups :: qualified_teams where
  "four_groups =
     \<lparr>winners = [qual teamA ''A'', qual teamB ''B'', qual teamC ''C'', qual teamD ''D''],
      runnersUp =
        [qual \<lparr>team_id = Some ''e'', team_name = ''E''\<rparr> ''A'',
         qual \<lparr>team_id = Some ''f'', team_name = ''F''\<rparr> ''B'',
         qual \<lparr>team_id = Some ''g'', team_name = ''G''\<rparr> ''C'',
         qual \<lparr>team_id = Some ''h'', team_name = ''H''\<rparr> ''D''],
      bestThirds = []\<rparr>"

text \<open>The second quarterfinal of the bracket, C against B, decided 2-1.\<close>

definition decided_quarterfinal :: match where
  "decided_quarterfinal =
     knockout_result (round_matches (example_bracket ! 0) ! 1) (JInt 2) (JInt 1) None None"


section \<open>Properties\<close>

subsection \<open>Arrays\<close>

lemma length_upd [simp]: "length (upd i f xs) = length xs"
  by (simp add: upd_def)

lemma nth_upd: "k < length xs \<Longrightarrow> upd i f xs ! k = (if i = k then f (xs ! k) else xs ! k)"
  by (simp add: upd_def nth_list_update)

lemma map_upd_same: "(\<And>r. g (f r) = g r) \<Longrightarrow> map g (upd i f xs) = map g xs"
  by (simp add: upd_def map_update list_update_same_conv)

lemma findIndex_Some: "findIndex P xs = Some i \<Longrightarrow> i < length xs \<and> P (xs ! i)"
  by (induction xs arbitrary: i) (auto split: if_splits)

lemma findIndex_None: "findIndex P xs = None \<longleftrightarrow> (\<forall>x \<in> set xs. \<not> P x)"
  by (induction xs) auto

lemma findIndex_absent: "v \<notin> f ` set xs \<Longrightarrow> findIndex (\<lambda>r. f r = v) xs = None"
  by (induction xs) auto

lemma mset_insert_by: "mset (insert_by cmp x ys) = add_mset x (mset ys)"
  by (induction ys) auto

lemma mset_js_sort: "mset (js_sort cmp xs) = mset xs"
  by (induction xs) (auto simp: js_sort_def mset_insert_by)

lemma set_js_sort: "set (js_sort cmp xs) = set xs"
  by (metis mset_js_sort set_mset_mset)

lemma length_js_sort: "length (js_sort cmp xs) = length xs"
  by (metis mset_js_sort size_mset)

lemma set_insert_by: "set (insert_by cmp x ys) = insert x (set ys)"
  by (metis mset_insert_by set_mset_add_mset_insert set_mset_mset)

text \<open>Two comparators that agree on the elements of a list sort it alike.\<close>

lemma insert_by_cong:
  "(\<And>y. y \<in> set ys \<Longrightarrow> cmp x y = cmp' x y) \<Longrightarrow> insert_by cmp x ys = insert_by cmp' x ys"
  by (induction ys) auto

lemma js_sort_cong:
  "(\<And>x y. x \<in> set xs \<Longrightarrow> y \<in> set xs \<Longrightarrow> cmp x y = cmp' x y) \<Longrightarrow> js_sort cmp xs = js_sort cmp' xs"
proof (induction xs)
  case Nil
  then show ?case by (simp add: js_sort_def)
next
  case (Cons x xs)
  have tail: "js_sort cmp xs = js_sort cmp' xs"
    using Cons by simp
  have "insert_by cmp x (js_sort cmp' xs) = insert_by cmp' x (js_sort cmp' xs)"
    by (rule insert_by_cong) (simp add: set_js_sort Cons.prems)
  with tail show ?case
    by (simp add: js_sort_def)
qed

subsection \<open>The standings table\<close>

lemma processMatch_teams: "map team_of (processMatch s m) = map team_of s"
  by (simp add: processMatch_def Let_def map_upd_same team_of_def
      split: option.splits bool.splits prod.splits)

lemma length_processMatch [simp]: "length (processMatch s m) = length s"
  by (metis processMatch_teams length_map)

text \<open>The two accounting equations of a row.\<close>

lemma processMatch_balanced_nth:
  assumes "k < length s"
    and "row_played (s ! k) = won (s ! k) + drawn (s ! k) + lost (s ! k)"
    and "points (s ! k) = 3 * won (s ! k) + drawn (s ! k)"
  shows "row_played (processMatch s m ! k)
           = won (processMatch s m ! k) + drawn (processMatch s m ! k) + lost (processMatch s m ! k)
         \<and> points (processMatch s m ! k) = 3 * won (processMatch s m ! k) + drawn (processMatch s m ! k)"
  using assms
  by (auto simp: processMatch_def Let_def nth_upd
      split: option.splits bool.splits prod.splits)

lemma foldl_processMatch_teams: "map team_of (foldl processMatch s ms) = map team_of s"
  by (induction ms arbitrary: s) (simp_all add: processMatch_teams)

lemma foldl_processMatch_balanced:
  assumes "\<And>r. r \<in> set s \<Longrightarrow> row_played r = won r + drawn r + lost r \<and> points r = 3 * won r + drawn r"
    and "r \<in> set (foldl processMatch s ms)"
  shows "row_played r = won r + drawn r + lost r \<and> points r = 3 * won r + drawn r"
  using assms
proof (induction ms arbitrary: s)
  case Nil
  then show ?case by simp
next
  case (Cons m ms)
  have step: "row_played x = won x + drawn x + lost x \<and> points x = 3 * won x + drawn x"
    if "x \<in> set (processMatch s m)" for x
  proof -
    from that obtain k where k: "k < length s" "x = processMatch s m ! k"
      by (metis in_set_conv_nth length_processMatch)
    with Cons.prems(1) have "row_played (s ! k) = won (s ! k) + drawn (s ! k) + lost (s ! k)"
      "points (s ! k) = 3 * won (s ! k) + drawn (s ! k)"
      by simp_all
    with k show ?thesis
      using processMatch_balanced_nth by blast
  qed
  from Cons.prems(2) have "r \<in> set (foldl processMatch (processMatch s m) ms)"
    by simp
  with step show ?case
    by (rule Cons.IH)
qed

lemma team_of_initial_row [simp]: "team_of (initial_row t) = t"
  by (simp add: team_of_def initial_row_def)

lemma tally_teams: "map team_of (tally ts ms) = ts"
proof -
  have "map team_of (tally ts ms) = map team_of (foldl processMatch (map initial_row ts) ms)"
    by (simp add: tally_def team_of_def comp_def)
  also have "\<dots> = map team_of (map initial_row ts)"
    by (rule foldl_processMatch_teams)
  also have "\<dots> = ts"
    by (simp add: comp_def)
  finally show ?thesis .
qed

lemma tally_rows:
  assumes "r \<in> set (tally ts ms)"
  shows "row_played r = won r + drawn r + lost r \<and> points r = 3 * won r + drawn r
         \<and> goalDifference r = js_sub (goalsFor r) (goalsAgainst r)"
proof -
  from assms obtain r0 where r0: "r0 \<in> set (foldl processMatch (map initial_row ts) ms)"
    and r: "r = r0\<lparr>goalDifference := js_sub (goalsFor r0) (goalsAgainst r0)\<rparr>"
    by (auto simp: tally_def)
  have "row_played x = won x + drawn x + lost x \<and> points x = 3 * won x + drawn x"
    if "x \<in> set (map initial_row ts)" for x
    using that by (auto simp: initial_row_def)
  then have "row_played r0 = won r0 + drawn r0 + lost r0 \<and> points r0 = 3 * won r0 + drawn r0"
    using r0 by (rule foldl_processMatch_balanced)
  then show ?thesis
    by (simp add: r)
qed

lemma processMatch_absent:
  assumes "team_id (homeTeam m) \<notin> row_id ` set s \<or> team_id (awayTeam m) \<notin> row_id ` set s"
  shows "processMatch s m = s"
  using assms
proof
  assume "team_id (homeTeam m) \<notin> row_id ` set s"
  then have "findIndex (\<lambda>r. row_id r = team_id (homeTeam m)) s = None"
    by (rule findIndex_absent)
  then show ?thesis
    by (simp add: processMatch_def split: option.splits bool.splits)
next
  assume "team_id (awayTeam m) \<notin> row_id ` set s"
  then have "findIndex (\<lambda>r. row_id r = team_id (awayTeam m)) s = None"
    by (rule findIndex_absent)
  then show ?thesis
    by (simp add: processMatch_def split: option.splits bool.splits)
qed

lemma row_ids_foldl: "row_id ` set (foldl processMatch s ms) = row_id ` set s"
proof -
  have "map row_id xs = map team_id (map team_of xs)" for xs
    by (simp add: team_of_def comp_def)
  then have "map row_id (foldl processMatch s ms) = map row_id s"
    by (simp only: foldl_processMatch_teams)
  then show ?thesis by (metis set_map)
qed

lemma tally_absent:
  assumes "team_id (homeTeam m) \<notin> team_id ` set ts \<or> team_id (awayTeam m) \<notin> team_id ` set ts"
  shows "tally ts (ms1 @ m # ms2) = tally ts (ms1 @ ms2)"
proof -
  let ?s = "foldl processMatch (map initial_row ts) ms1"
  have "row_id ` set ?s = row_id ` set (map initial_row ts)"
    by (rule row_ids_foldl)
  also have "\<dots> = team_id ` set ts"
    by (auto simp: initial_row_def image_iff)
  finally have "processMatch ?s m = ?s"
    using assms by (intro processMatch_absent) simp
  then show ?thesis by (simp add: tally_def)
qed

lemma tally_row_ids: "row_id ` set (tally ts ms) = team_id ` set ts"
proof -
  have "map row_id (tally ts ms) = map team_id (map team_of (tally ts ms))"
    by (simp add: team_of_def comp_def)
  then have "map row_id (tally ts ms) = map team_id ts"
    by (simp only: tally_teams)
  then show ?thesis by (metis set_map)
qed

lemma find_skip: "\<not> P y \<Longrightarrow> find P (xs @ y # ys) = find P (xs @ ys)"
  by (induction xs) auto

lemma getHeadToHeadResult_absent:
  assumes "team_id (homeTeam m) \<notin> S \<or> team_id (awayTeam m) \<notin> S" and "a \<in> S" and "b \<in> S"
  shows "getHeadToHeadResult (ms1 @ m # ms2) a b = getHeadToHeadResult (ms1 @ ms2) a b"
proof -
  let ?P = "\<lambda>m. ((team_id (homeTeam m) = a \<and> team_id (awayTeam m) = b) \<or>
                   (team_id (homeTeam m) = b \<and> team_id (awayTeam m) = a)) \<and> played m"
  have "\<not> ?P m"
    using assms by auto
  then have "find ?P (ms1 @ m # ms2) = find ?P (ms1 @ ms2)"
    by (rule find_skip)
  then show ?thesis
    unfolding getHeadToHeadResult_def by (rule arg_cong)
qed

lemma recalculateStandings_absent:
  assumes "team_id (homeTeam m) \<notin> team_id ` set (teams g) \<or> team_id (awayTeam m) \<notin> team_id ` set (teams g)"
  shows "standings (recalculateStandings lc (g\<lparr>group_matches := ms1 @ m # ms2\<rparr>))
         = standings (recalculateStandings lc (g\<lparr>group_matches := ms1 @ ms2\<rparr>))"
proof -
  let ?t = "tally (teams g) (ms1 @ ms2)"
  have same: "tally (teams g) (ms1 @ m # ms2) = ?t"
    using assms by (rule tally_absent)
  have "compareGroupStandings lc (ms1 @ m # ms2) x y = compareGroupStandings lc (ms1 @ ms2) x y"
    if "x \<in> set ?t" "y \<in> set ?t" for x y
  proof -
    from that have "row_id x \<in> team_id ` set (teams g)" "row_id y \<in> team_id ` set (teams g)"
      using tally_row_ids by blast+
    with assms have "getHeadToHeadResult (ms1 @ m # ms2) (row_id x) (row_id y)
        = getHeadToHeadResult (ms1 @ ms2) (row_id x) (row_id y)"
      by (rule getHeadToHeadResult_absent)
    then show ?thesis
      by (simp add: compareGroupStandings_def)
  qed
  then have "js_sort (compareGroupStandings lc (ms1 @ m # ms2)) ?t
           = js_sort (compareGroupStandings lc (ms1 @ ms2)) ?t"
    by (rule js_sort_cong)
  with same show ?thesis
    by (simp add: recalculateStandings_def sortStandings_def)
qed

lemma calculateGroupStandings_rows:
  "mset (map team_of (calculateGroupStandings lc ts ms)) = mset ts"
proof -
  have "mset (map team_of (calculateGroupStandings lc ts ms)) = image_mset team_of (mset (tally ts ms))"
    by (simp add: calculateGroupStandings_def sortGroupStandings_def mset_js_sort)
  also have "\<dots> = mset (map team_of (tally ts ms))"
    by simp
  finally show ?thesis
    by (simp only: tally_teams)
qed

lemma recalculateStandings_rows:
  "mset (map team_of (standings (recalculateStandings lc g))) = mset (teams g)"
proof -
  have "mset (map team_of (standings (recalculateStandings lc g)))
      = image_mset team_of (mset (tally (teams g) (group_matches g)))"
    by (simp add: recalculateStandings_def sortStandings_def mset_js_sort)
  also have "\<dots> = mset (map team_of (tally (teams g) (group_matches g)))"
    by simp
  finally show ?thesis
    by (simp only: tally_teams)
qed

lemma set_calculateGroupStandings: "set (calculateGroupStandings lc ts ms) = set (tally ts ms)"
  by (simp add: calculateGroupStandings_def sortGroupStandings_def set_js_sort)

lemma set_recalculateStandings:
  "set (standings (recalculateStandings lc g)) = set (tally (teams g) (group_matches g))"
  by (simp add: recalculateStandings_def sortStandings_def set_js_sort)

text \<open>
  C10. The table of \<^verbatim>\<open>Helpers.calculateGroupStandings\<close> and the table of
  \<^verbatim>\<open>Group.recalculateStandings\<close> hold exactly one row per team of the team list (the rows,
  read as teams, are the team list up to order). Every row satisfies played = won +
  drawn + lost, points = 3 * won + drawn, and goal difference = goals for - goals
  against. A match whose home or away team identifier is not in the team list changes
  no row: the table is the one computed without that match.
\<close>

theorem C10_standings_accounting:
  "mset (map team_of (calculateGroupStandings lc ts ms)) = mset ts
   \<and> mset (map team_of (standings (recalculateStandings lc g))) = mset (teams g)
   \<and> (\<forall>r \<in> set (calculateGroupStandings lc ts ms) \<union> set (standings (recalculateStandings lc g)).
         row_played r = won r + drawn r + lost r
         \<and> points r = 3 * won r + drawn r
         \<and> goalDifference r = js_sub (goalsFor r) (goalsAgainst r))
   \<and> (team_id (homeTeam m) \<notin> team_id ` set ts \<or> team_id (awayTeam m) \<notin> team_id ` set ts
        \<longrightarrow> calculateGroupStandings lc ts (ms1 @ m # ms2) = calculateGroupStandings lc ts (ms1 @ ms2))
   \<and> (team_id (homeTeam m) \<notin> team_id ` set (teams g) \<or> team_id (awayTeam m) \<notin> team_id ` set (teams g)
        \<longrightarrow> standings (recalculateStandings lc (g\<lparr>group_matches := ms1 @ m # ms2\<rparr>))
            = standings (recalculateStandings lc (g\<lparr>group_matches := ms1 @ ms2\<rparr>)))"
proof (intro conjI ballI impI)
  show "mset (map team_of (calculateGroupStandings lc ts ms)) = mset ts"
    by (rule calculateGroupStandings_rows)
  show "mset (map team_of (standings (recalculateStandings lc g))) = mset (teams g)"
    by (rule recalculateStandings_rows)
next
  fix r
  assume "r \<in> set (calculateGroupStandings lc ts ms) \<union> set (standings (recalculateStandings lc g))"
  then have r: "r \<in> set (tally ts ms) \<or> r \<in> set (tally (teams g) (group_matches g))"
    by (simp add: set_calculateGroupStandings set_recalculateStandings)
  then show "row_played r = won r + drawn r + lost r" using tally_rows by blast
  from r show "points r = 3 * won r + drawn r" using tally_rows by blast
  from r show "goalDifference r = js_sub (goalsFor r) (goalsAgainst r)" using tally_rows by blast
next
  assume "team_id (homeTeam m) \<notin> team_id ` set ts \<or> team_id (awayTeam m) \<notin> team_id ` set ts"
  then have "tally ts (ms1 @ m # ms2) = tally ts (ms1 @ ms2)"
    by (rule tally_absent)
  then show "calculateGroupStandings lc ts (ms1 @ m # ms2) = calculateGroupStandings lc ts (ms1 @ ms2)"
    by (simp add: calculateGroupStandings_def)
next
  assume "team_id (homeTeam m) \<notin> team_id ` set (teams g) \<or> team_id (awayTeam m) \<notin> team_id ` set (teams g)"
  then show "standings (recalculateStandings lc (g\<lparr>group_matches := ms1 @ m # ms2\<rparr>))
            = standings (recalculateStandings lc (g\<lparr>group_matches := ms1 @ ms2\<rparr>))"
    by (rule recalculateStandings_absent)
qed

lemma stray_not_in_group: "team_id (awayTeam stray_match) \<notin> team_id ` set example_teams"
  by (simp add: stray_match_def Helpers_updateMatchResult_def plain_group_match_def
      example_teams_def teamA_def teamB_def teamC_def teamD_def)

lemma example_top_row:
  "hd (calculateGroupStandings codeUnitCompare example_teams results_b_beat_a)
     \<in> set (calculateGroupStandings codeUnitCompare example_teams results_b_beat_a)"
proof -
  have "length (calculateGroupStandings codeUnitCompare example_teams results_b_beat_a) = length example_teams"
    by (metis calculateGroupStandings_rows length_map size_mset)
  then have "calculateGroupStandings codeUnitCompare example_teams results_b_beat_a \<noteq> []"
    by (auto simp: example_teams_def)
  then show ?thesis by simp
qed

theorem C10_standings_accounting_witness:
  "mset (map team_of (calculateGroupStandings codeUnitCompare example_teams results_b_beat_a))
     = mset example_teams
   \<and> row_played (hd (calculateGroupStandings codeUnitCompare example_teams results_b_beat_a))
     = won (hd (calculateGroupStandings codeUnitCompare example_teams results_b_beat_a))
       + drawn (hd (calculateGroupStandings codeUnitCompare example_teams results_b_beat_a))
       + lost (hd (calculateGroupStandings codeUnitCompare example_teams results_b_beat_a))
   \<and> points (hd (calculateGroupStandings codeUnitCompare example_teams results_b_beat_a))
     = 3 * won (hd (calculateGroupStandings codeUnitCompare example_teams results_b_beat_a))
       + drawn (hd (calculateGroupStandings codeUnitCompare example_teams results_b_beat_a))
   \<and> calculateGroupStandings codeUnitCompare example_teams (results_b_beat_a @ [stray_match])
     = calculateGroupStandings codeUnitCompare example_teams results_b_beat_a
   \<and> standings (recalculateStandings codeUnitCompare
        (group_b_beat_a\<lparr>group_matches := group_matches group_b_beat_a @ [stray_match]\<rparr>))
     = standings (recalculateStandings codeUnitCompare
        (group_b_beat_a\<lparr>group_matches := group_matches group_b_beat_a\<rparr>))"
proof -
  have g: "teams group_b_beat_a = example_teams"
    by code_simp
  note main = C10_standings_accounting [of codeUnitCompare example_teams results_b_beat_a
      group_b_beat_a stray_match results_b_beat_a "[]"]
  note grp = C10_standings_accounting [of codeUnitCompare example_teams results_b_beat_a
      group_b_beat_a stray_match "group_matches group_b_beat_a" "[]"]
  from main example_top_row stray_not_in_group grp g show ?thesis
    by (simp del: mset_map)
qed

subsection \<open>Group fixtures\<close>

lemma four_elements: "length xs = 4 \<Longrightarrow> \<exists>a b c d. xs = [a, b, c, d]"
  by (auto simp: length_Suc_conv numeral_eq_Suc)

lemma createGroupMatches_four:
  "map (\<lambda>m. (homeTeam m, awayTeam m, matchday m)) (createGroupMatches fresh [a, b, c, d] gid)
     = [(a, d, Some 1), (b, c, Some 1), (a, b, Some 2), (c, d, Some 2), (c, a, Some 3), (d, b, Some 3)]"
  by (simp add: createGroupMatches_def matchPattern_def Match_def empty_config_def or_int_def)

lemma generateMatchSchedule_four:
  "map (\<lambda>m. (homeTeam m, awayTeam m, matchday m)) (flatten_schedule (generateMatchSchedule clock [a, b, c, d]))
     = [(a, d, Some 1), (b, c, Some 1), (a, b, Some 2), (c, d, Some 2), (c, a, Some 3), (d, b, Some 3)]"
  by (simp add: generateMatchSchedule_def flatten_schedule_def matchPattern_def plain_group_match_def)

lemma below_four: "(i::nat) < 4 \<Longrightarrow> i = 0 \<or> i = 1 \<or> i = 2 \<or> i = 3"
  by arith

lemma pair_once:
  assumes "distinct [a, b, c, d]" and "i < 4" and "j < 4" and "i \<noteq> j"
  shows "length (filter (\<lambda>p. {fst p, fst (snd p)} = {[a, b, c, d] ! i, [a, b, c, d] ! j})
           [(a, d, x1), (b, c, x2), (a, b, x3), (c, d, x4), (c, a, x5), (d, b, x6)]) = 1"
proof -
  from assms(2) have i: "i = 0 \<or> i = 1 \<or> i = 2 \<or> i = 3" by (rule below_four)
  from assms(3) have j: "j = 0 \<or> j = 1 \<or> j = 2 \<or> j = 3" by (rule below_four)
  from i j assms(1,4) show ?thesis
    by (elim disjE) (auto simp: doubleton_eq_iff)
qed

lemma filter_by_projection:
  "length (filter (\<lambda>m. P (f m)) ms) = length (filter P (map f ms))"
  by (induction ms) auto

lemma fixtures_pair_once:
  assumes fx: "map (\<lambda>m. (homeTeam m, awayTeam m, matchday m)) ms
             = [(a, d, x1), (b, c, x2), (a, b, x3), (c, d, x4), (c, a, x5), (d, b, x6)]"
    and "distinct [a, b, c, d]" and "i < 4" and "j < 4" and "i \<noteq> j"
  shows "length (filter (\<lambda>m. {homeTeam m, awayTeam m} = {[a, b, c, d] ! i, [a, b, c, d] ! j}) ms) = 1"
proof -
  have "length (filter (\<lambda>m. {homeTeam m, awayTeam m} = {[a, b, c, d] ! i, [a, b, c, d] ! j}) ms)
      = length (filter (\<lambda>p. {fst p, fst (snd p)} = {[a, b, c, d] ! i, [a, b, c, d] ! j})
          (map (\<lambda>m. (homeTeam m, awayTeam m, matchday m)) ms))"
    using filter_by_projection
      [of "\<lambda>p. {fst p, fst (snd p)} = {[a, b, c, d] ! i, [a, b, c, d] ! j}"
          "\<lambda>m. (homeTeam m, awayTeam m, matchday m)" ms]
    by simp
  also have "\<dots> = 1"
    unfolding fx using assms(2-5) by (rule pair_once)
  finally show ?thesis .
qed

text \<open>
  C8. For a list of exactly four teams, \<^verbatim>\<open>Match.createGroupMatches\<close> (and with it
  \<^verbatim>\<open>Group.generateMatches\<close>) and \<^verbatim>\<open>Helpers.generateMatchSchedule\<close> produce exactly six matches,
  in this order with these home sides: matchday 1 team 1 v team 4 and team 2 v team 3,
  matchday 2 team 1 v team 2 and team 3 v team 4, matchday 3 team 3 v team 1 and team 4
  v team 2. When the four teams are distinct, every unordered pair of them is the
  pairing of exactly one match.
\<close>

theorem C8_round_robin:
  assumes "length ts = 4"
  shows "map (\<lambda>m. (homeTeam m, awayTeam m, matchday m)) (createGroupMatches fresh ts gid)
           = [(ts ! 0, ts ! 3, Some 1), (ts ! 1, ts ! 2, Some 1), (ts ! 0, ts ! 1, Some 2),
              (ts ! 2, ts ! 3, Some 2), (ts ! 2, ts ! 0, Some 3), (ts ! 3, ts ! 1, Some 3)]
       \<and> map (\<lambda>m. (homeTeam m, awayTeam m, matchday m)) (flatten_schedule (generateMatchSchedule clock ts))
           = [(ts ! 0, ts ! 3, Some 1), (ts ! 1, ts ! 2, Some 1), (ts ! 0, ts ! 1, Some 2),
              (ts ! 2, ts ! 3, Some 2), (ts ! 2, ts ! 0, Some 3), (ts ! 3, ts ! 1, Some 3)]
       \<and> map sched_matchday (generateMatchSchedule clock ts) = [1, 2, 3]
       \<and> (teams g = ts \<longrightarrow> group_matches (generateMatches fresh g) = createGroupMatches fresh ts (group_id g))
       \<and> length (createGroupMatches fresh ts gid) = 6
       \<and> length (flatten_schedule (generateMatchSchedule clock ts)) = 6
       \<and> (distinct ts \<longrightarrow>
            (\<forall>i j. i < 4 \<and> j < 4 \<and> i \<noteq> j \<longrightarrow>
               length (filter (\<lambda>m. {homeTeam m, awayTeam m} = {ts ! i, ts ! j})
                         (createGroupMatches fresh ts gid)) = 1
               \<and> length (filter (\<lambda>m. {homeTeam m, awayTeam m} = {ts ! i, ts ! j})
                           (flatten_schedule (generateMatchSchedule clock ts))) = 1))"
proof -
  from assms obtain a b c d where ts: "ts = [a, b, c, d]"
    using four_elements by blast
  have m1: "map (\<lambda>m. (homeTeam m, awayTeam m, matchday m)) (createGroupMatches fresh ts gid)
      = [(a, d, Some 1), (b, c, Some 1), (a, b, Some 2), (c, d, Some 2), (c, a, Some 3), (d, b, Some 3)]"
    unfolding ts by (rule createGroupMatches_four)
  have m2: "map (\<lambda>m. (homeTeam m, awayTeam m, matchday m)) (flatten_schedule (generateMatchSchedule clock ts))
      = [(a, d, Some 1), (b, c, Some 1), (a, b, Some 2), (c, d, Some 2), (c, a, Some 3), (d, b, Some 3)]"
    unfolding ts by (rule generateMatchSchedule_four)
  have days: "map sched_matchday (generateMatchSchedule clock ts) = [1, 2, 3]"
    by (simp add: ts generateMatchSchedule_def matchPattern_def)
  have gen: "teams g = ts \<longrightarrow> group_matches (generateMatches fresh g) = createGroupMatches fresh ts (group_id g)"
    by (simp add: ts generateMatches_def)
  have l1: "length (createGroupMatches fresh ts gid) = 6"
    using arg_cong [OF m1, of length] by simp
  have l2: "length (flatten_schedule (generateMatchSchedule clock ts)) = 6"
    using arg_cong [OF m2, of length] by simp
  have pairs: "length (filter (\<lambda>m. {homeTeam m, awayTeam m} = {ts ! i, ts ! j})
                         (createGroupMatches fresh ts gid)) = 1
               \<and> length (filter (\<lambda>m. {homeTeam m, awayTeam m} = {ts ! i, ts ! j})
                           (flatten_schedule (generateMatchSchedule clock ts))) = 1"
    if "distinct ts" "i < 4 \<and> j < 4 \<and> i \<noteq> j" for i j
  proof -
    from that have d: "distinct [a, b, c, d]" and i: "i < 4" and j: "j < 4" and ij: "i \<noteq> j"
      by (simp_all add: ts)
    show ?thesis
      unfolding ts
      using fixtures_pair_once [OF m1 d i j ij] fixtures_pair_once [OF m2 d i j ij]
      by (simp add: ts)
  qed
  from m1 m2 days gen l1 l2 pairs show ?thesis
    by (simp add: ts)
qed

theorem C8_round_robin_witness:
  "length example_teams = 4
   \<and> map (\<lambda>m. (homeTeam m, awayTeam m, matchday m))
       (createGroupMatches (\<lambda>k. ''m'' @ show_nat k) example_teams ''g'')
     = [(teamA, teamD, Some 1), (teamB, teamC, Some 1), (teamA, teamB, Some 2),
        (teamC, teamD, Some 2), (teamC, teamA, Some 3), (teamD, teamB, Some 3)]
   \<and> map (\<lambda>m. (homeTeam m, awayTeam m, matchday m)) example_fixtures
     = [(teamA, teamD, Some 1), (teamB, teamC, Some 1), (teamA, teamB, Some 2),
        (teamC, teamD, Some 2), (teamC, teamA, Some 3), (teamD, teamB, Some 3)]
   \<and> length (filter (\<lambda>m. {homeTeam m, awayTeam m} = {teamA, teamB})
       (createGroupMatches (\<lambda>k. ''m'' @ show_nat k) example_teams ''g'')) = 1
   \<and> length (filter (\<lambda>m. {homeTeam m, awayTeam m} = {teamA, teamB}) example_fixtures) = 1"
proof -
  have len: "length example_teams = 4"
    by (simp add: example_teams_def)
  have dist: "distinct example_teams"
    by (simp add: example_teams_def teamA_def teamB_def teamC_def teamD_def)
  note main = C8_round_robin [OF len, of "\<lambda>k. ''m'' @ show_nat k" "''g''" "\<lambda>k. ''0''" example_group]
  from main dist have
    "length (filter (\<lambda>m. {homeTeam m, awayTeam m} = {example_teams ! 0, example_teams ! 1})
       (createGroupMatches (\<lambda>k. ''m'' @ show_nat k) example_teams ''g'')) = 1
     \<and> length (filter (\<lambda>m. {homeTeam m, awayTeam m} = {example_teams ! 0, example_teams ! 1})
       (flatten_schedule (generateMatchSchedule (\<lambda>k. ''0'') example_teams))) = 1"
    by (elim conjE) (drule mp, assumption, drule spec [of _ 0], drule spec [of _ 1], simp)
  with main len show ?thesis
    by (simp add: example_fixtures_def example_teams_def)
qed

subsection \<open>Entering a result\<close>

lemma parseInt_minus_one: "parseInt_str ''-1'' = JInt (- 1)"
  by code_simp

lemma parseInt_zero: "parseInt_str ''0'' = JInt 0"
  by code_simp

lemma parseInt_fraction: "parseInt_str ''1.5'' = JInt 1"
  by code_simp

lemma parseInt_letters: "parseInt_str ''abc'' = NaN"
  by code_simp

lemma unplayed_match_fields:
  "played unplayed_match = False" "homeScore unplayed_match = None"
  "awayScore unplayed_match = None" "winner unplayed_match = None"
  "homeTeam unplayed_match = teamA" "awayTeam unplayed_match = teamD"
  by (simp_all add: unplayed_match_def Match_def empty_config_def)

text \<open>
  C7, as stated: a negative or non-integral score would be refused and the match left as
  it was. \<^verbatim>\<open>Match.updateResult\<close> and \<^verbatim>\<open>Helpers.updateMatchResult\<close> accept the pair -1, 0 for
  a match that has not been played: afterwards the match is played, the home score is
  -1 and the away team has won. The pair 1.5, 0 is accepted as 1, 0.
\<close>

theorem C7_negative_score_accepted:
  "played unplayed_match = False
   \<and> homeScore unplayed_match = None
   \<and> winner unplayed_match = None
   \<and> played (updateResult unplayed_match (Num (JInt (- 1))) (Num (JInt 0))) = True
   \<and> homeScore (updateResult unplayed_match (Num (JInt (- 1))) (Num (JInt 0))) = Some (JInt (- 1))
   \<and> winner (updateResult unplayed_match (Num (JInt (- 1))) (Num (JInt 0))) = Some teamD
   \<and> played (Helpers_updateMatchResult unplayed_match (Str ''-1'') (Str ''0'')) = True
   \<and> homeScore (Helpers_updateMatchResult unplayed_match (Str ''-1'') (Str ''0'')) = Some (JInt (- 1))
   \<and> played (updateResult unplayed_match (Str ''1.5'') (Str ''0'')) = True
   \<and> homeScore (updateResult unplayed_match (Str ''1.5'') (Str ''0'')) = Some (JInt 1)"
  by (simp add: unplayed_match_fields updateResult_def Helpers_updateMatchResult_def
      parseInt_minus_one parseInt_zero parseInt_fraction)

text \<open>
  C7, amended. \<^verbatim>\<open>Match.updateResult\<close> and \<^verbatim>\<open>Helpers.updateMatchResult\<close> check nothing: for
  every match and every pair of arguments they store \<^verbatim>\<open>parseInt\<close> of each argument, mark
  the match played, and set the winner from the two parsed scores. A pair in which a
  score parses to NaN or is negative is refused by the save handlers of the result
  forms, \<^verbatim>\<open>MatchView._saveMatchResult\<close> and \<^verbatim>\<open>KnockoutView._saveKnockoutMatchResult\<close>: they
  alert and return before any update is called, so the state is the one before.
\<close>

theorem C7_validation_in_the_forms:
  "played (updateResult m hs as)
   \<and> homeScore (updateResult m hs as) = Some (parseInt hs)
   \<and> awayScore (updateResult m hs as) = Some (parseInt as)
   \<and> winner (updateResult m hs as)
       = (if js_gt (parseInt hs) (parseInt as) then Some (homeTeam m)
          else if js_lt (parseInt hs) (parseInt as) then Some (awayTeam m) else None)
   \<and> Helpers_updateMatchResult m hs as = updateResult m hs as
   \<and> (isNaN (parseInt_str hv) \<or> isNaN (parseInt_str av)
        \<or> js_lt (parseInt_str hv) (JInt 0) \<or> js_lt (parseInt_str av) (JInt 0)
       \<longrightarrow> saveMatchResult submit s hv av
             = Inr (s, Alert ''Please enter valid scores (non-negative numbers)'')
           \<and> saveKnockoutMatchResult submit' s hv av et pen
             = Inr (s, Alert ''Please enter valid scores (non-negative numbers)''))"
  by (auto simp: updateResult_def Helpers_updateMatchResult_def Let_def saveMatchResult_def
      saveKnockoutMatchResult_def invalid_score_def)

theorem C7_validation_in_the_forms_witness:
  "saveMatchResult
     (\<lambda>g h a. Inr (Group_updateMatchResult codeUnitCompare g ''m0'' (Num h) (Num a)))
     example_group ''-1'' ''0''
   = Inr (example_group, Alert ''Please enter valid scores (non-negative numbers)'')
   \<and> saveMatchResult
     (\<lambda>g h a. Inr (Group_updateMatchResult codeUnitCompare g ''m0'' (Num h) (Num a)))
     example_group ''abc'' ''0''
   = Inr (example_group, Alert ''Please enter valid scores (non-negative numbers)'')"
proof -
  have neg: "js_lt (parseInt_str ''-1'') (JInt 0)"
    by (simp add: parseInt_minus_one)
  have nan: "isNaN (parseInt_str ''abc'')"
    by (simp add: parseInt_letters)
  from neg nan
    C7_validation_in_the_forms [of unplayed_match "Num (JInt 0)" "Num (JInt 0)" "''-1''" "''0''"
      "\<lambda>g h a. Inr (Group_updateMatchResult codeUnitCompare g ''m0'' (Num h) (Num a))"
      example_group "\<lambda>g h a e p. Inr (g, True)" None None]
    C7_validation_in_the_forms [of unplayed_match "Num (JInt 0)" "Num (JInt 0)" "''abc''" "''0''"
      "\<lambda>g h a. Inr (Group_updateMatchResult codeUnitCompare g ''m0'' (Num h) (Num a))"
      example_group "\<lambda>g h a e p. Inr (g, True)" None None]
  show ?thesis
    by blast
qed

subsection \<open>The penalty shootout\<close>

lemma example_final_fields:
  "played example_final = False" "winner example_final = None"
  "penalties example_final = no_penalties" "homeTeam example_final = teamA"
  "awayTeam example_final = teamB" "match_id example_final = ''final_0''"
  "roundIndex example_final = Some 3"
  by (simp_all add: example_final_def Match_def empty_config_def or_str_def or_int_def)

text \<open>What a level shootout does to any match: the winner fields and the played flag
  stay, the shootout is recorded as played with the level score.\<close>

lemma updatePenaltyResult_level:
  "updatePenaltyResult m (Num (JInt n)) (Num (JInt n))
     = m\<lparr>penalties := (penalties m)\<lparr>pen_homeScore := Some (JInt n), pen_awayScore := Some (JInt n),
                                      pen_played := True\<rparr>\<rparr>"
  by (simp add: updatePenaltyResult_def Let_def)

text \<open>
  C3, on the code: \<^verbatim>\<open>Match.updatePenaltyResult\<close> writes the shootout record before it
  compares the scores. For the final between A and B, drawn 1-1, a shootout entered as
  3-3 leaves winner and played as they were but records the shootout as played with
  the score 3-3. Through \<^verbatim>\<open>KnockoutController.updateMatchResult\<close> the same input marks the
  match played, with no winner and with the level shootout recorded.
\<close>

theorem C3_level_shootout_recorded:
  "penalties (updateResult example_final (Num (JInt 1)) (Num (JInt 1))) = no_penalties
   \<and> penalties (updatePenaltyResult (updateResult example_final (Num (JInt 1)) (Num (JInt 1)))
        (Num (JInt 3)) (Num (JInt 3)))
     = \<lparr>pen_played = True, pen_homeScore = Some (JInt 3), pen_awayScore = Some (JInt 3),
        pen_winner = None\<rparr>
   \<and> winner (updatePenaltyResult (updateResult example_final (Num (JInt 1)) (Num (JInt 1)))
        (Num (JInt 3)) (Num (JInt 3))) = None
   \<and> played (updatePenaltyResult (updateResult example_final (Num (JInt 1)) (Num (JInt 1)))
        (Num (JInt 3)) (Num (JInt 3))) = True
   \<and> knockout_result example_final (JInt 1) (JInt 1) None (Some \<lparr>sp_home = JInt 3, sp_away = JInt 3\<rparr>)
     = example_final\<lparr>homeScore := Some (JInt 1), awayScore := Some (JInt 1), played := True,
         penalties := \<lparr>pen_played = True, pen_homeScore = Some (JInt 3),
                       pen_awayScore = Some (JInt 3), pen_winner = None\<rparr>\<rparr>"
  by (simp add: updatePenaltyResult_def updateResult_def knockout_result_def Let_def
      example_final_def Match_def empty_config_def or_str_def or_int_def no_penalties_def
      no_extra_time_def)

subsection \<open>Serialization of a match\<close>

text \<open>The constructor normalises what it is given: the fields it builds are never the
  empty string and never zero.\<close>

lemma Match_normal:
  assumes "fresh \<noteq> []"
  shows "match_id (Match fresh config) \<noteq> []"
    and "matchday (Match fresh config) \<noteq> Some 0"
    and "roundIndex (Match fresh config) \<noteq> Some 0"
    and "round_name (Match fresh config) \<noteq> Some []"
    and "group_name (Match fresh config) \<noteq> Some []"
    and "match_no (Match fresh config) = None"
  using assms
  by (auto simp: Match_def or_str_def or_int_def split: option.splits if_splits)

text \<open>On a match whose fields are normal in that sense the round trip is the identity.\<close>

lemma deserialize_serialize:
  assumes "match_id m \<noteq> []" and "matchday m \<noteq> Some 0" and "roundIndex m \<noteq> Some 0"
    and "round_name m \<noteq> Some []" and "group_name m \<noteq> Some []" and "match_no m = None"
  shows "deserialize fresh (serialize m) = m"
  using assms
  by (cases m)
    (auto simp: deserialize_def serialize_def Match_def or_str_def or_int_def
      split: option.splits)

text \<open>
  C9, on the code: the constructor reads the round index with \<^verbatim>\<open>config.roundIndex || null\<close>,
  and 0 is falsy. A match with round index 0 comes back from the round trip with round
  index \<^verbatim>\<open>null\<close>, and so does the configuration the knockout controller writes for a
  match of the round of 16; the matches of that round are built with no round index.
\<close>

theorem C9_round_index_zero_lost:
  "roundIndex (deserialize fresh (serialize (m\<lparr>roundIndex := Some 0\<rparr>))) = None
   \<and> roundIndex (deserialize fresh
        (empty_config\<lparr>cfg_id := Some ''r16_0'', cfg_homeTeam := Some teamA,
                       cfg_awayTeam := Some teamB, cfg_round := Some ''Round of 16'',
                       cfg_roundIndex := Some 0\<rparr>)) = None
   \<and> map roundIndex (generateRoundOf16 fresh (winners four_groups) (runnersUp four_groups) [])
     = [None, None, None, None]"
proof -
  have "map roundIndex (generateRoundOf16 fresh (winners four_groups) (runnersUp four_groups) [])
     = [None, None, None, None]"
    by (simp add: generateRoundOf16_def pairing_matches_def four_groups_def at_def or_else_def
        Match_def or_int_def)
  then show ?thesis
    by (simp add: deserialize_def serialize_def Match_def or_int_def empty_config_def)
qed

subsection \<open>Head-to-head in the standings\<close>

text \<open>
  C1, on the code. In both sets of results A and B are level on points (3), goal
  difference (0) and goals scored (1) and have played each other.
  \<^verbatim>\<open>Helpers.sortGroupStandings\<close> has no head-to-head step: it puts A before B by name
  whether B beat A or A beat B. \<^verbatim>\<open>Group.sortStandings\<close> has the step, and returns the
  head-to-head result as the comparator result, which sorts the winner of the match
  after the loser: A before B when B beat A, B before A when A beat B.
\<close>

theorem C1_head_to_head_in_the_standings:
  "map (\<lambda>r. (row_name r, points r, goalDifference r, goalsFor r))
       (calculateGroupStandings codeUnitCompare example_teams results_b_beat_a)
     = [(''C'', 3, JInt 1, JInt 1), (''A'', 3, JInt 0, JInt 1), (''B'', 3, JInt 0, JInt 1),
        (''D'', 0, JInt (- 1), JInt 0)]
   \<and> getHeadToHeadResult results_b_beat_a (Some ''b'') (Some ''a'') = 1
   \<and> map (\<lambda>r. (row_name r, points r, goalDifference r, goalsFor r))
       (calculateGroupStandings codeUnitCompare example_teams results_a_beat_b)
     = [(''D'', 3, JInt 1, JInt 1), (''A'', 3, JInt 0, JInt 1), (''B'', 3, JInt 0, JInt 1),
        (''C'', 0, JInt (- 1), JInt 0)]
   \<and> getHeadToHeadResult results_a_beat_b (Some ''a'') (Some ''b'') = 1
   \<and> map (\<lambda>r. (row_name r, points r, goalDifference r, goalsFor r)) (standings group_b_beat_a)
     = [(''C'', 3, JInt 1, JInt 1), (''A'', 3, JInt 0, JInt 1), (''B'', 3, JInt 0, JInt 1),
        (''D'', 0, JInt (- 1), JInt 0)]
   \<and> getHeadToHeadResult (group_matches group_b_beat_a) (Some ''b'') (Some ''a'') = 1
   \<and> map (\<lambda>r. (row_name r, points r, goalDifference r, goalsFor r)) (standings group_a_beat_b)
     = [(''D'', 3, JInt 1, JInt 1), (''B'', 3, JInt 0, JInt 1), (''A'', 3, JInt 0, JInt 1),
        (''C'', 0, JInt (- 1), JInt 0)]
   \<and> getHeadToHeadResult (group_matches group_a_beat_b) (Some ''a'') (Some ''b'') = 1"
  by code_simp

subsection \<open>The first knockout round\<close>

lemma two_elements: "length xs = 2 \<Longrightarrow> \<exists>a b. xs = [a, b]"
  by (auto simp: length_Suc_conv numeral_eq_Suc)

lemma generateQuarterfinals_four:
  "map (\<lambda>m. (homeTeam m, awayTeam m)) (generateQuarterfinals fresh [w0, w1, w2, w3] [r0, r1, r2, r3] bs)
     = [(team_of (q_team w0), team_of (q_team r3)), (team_of (q_team w1), team_of (q_team r2)),
        (team_of (q_team w2), team_of (q_team r1)), (team_of (q_team w3), team_of (q_team r0))]"
  by (simp add: generateQuarterfinals_def pairing_matches_def at_def Match_def empty_config_def)

lemma generateQuarterfinals_two:
  "map (\<lambda>m. (homeTeam m, awayTeam m)) (generateQuarterfinals fresh [w0, w1] [r0, r1] bs)
     = [(team_of (q_team w0), team_of (q_team r1)), (team_of (q_team w1), team_of (q_team r0))]"
  by (simp add: generateQuarterfinals_def pairing_matches_def at_def Match_def empty_config_def)

text \<open>
  C5, as stated: the quarterfinal round of a tournament of two groups would contain four
  matches. \<^verbatim>\<open>KnockoutController.generateQuarterfinals\<close> builds two, and so does
  \<^verbatim>\<open>Helpers.generateQuarterfinals\<close>, which moreover pairs the qualifiers in list order:
  winner against winner and runner-up against runner-up.
\<close>

theorem C5_two_groups_two_quarterfinals:
  "map (\<lambda>m. (match_id m, team_name (homeTeam m), team_name (awayTeam m)))
       (generateQuarterfinals ''m'' (winners two_groups) (runnersUp two_groups) (bestThirds two_groups))
     = [(''qf_0'', ''A'', ''D''), (''qf_1'', ''C'', ''B'')]
   \<and> length (generateQuarterfinals ''m'' (winners two_groups) (runnersUp two_groups)
        (bestThirds two_groups)) = 2
   \<and> map (\<lambda>m. (match_id m, team_name (homeTeam m), team_name (awayTeam m)))
       (Helpers_generateQuarterfinals (winners two_groups) (runnersUp two_groups) [])
     = [(''qf_0'', ''A'', ''C''), (''qf_1'', ''B'', ''D'')]
   \<and> map (\<lambda>m. (match_id m, team_name (homeTeam m), team_name (awayTeam m)))
       (Helpers_generateQuarterfinals (winners four_groups) (runnersUp four_groups) [])
     = [(''qf_0'', ''A'', ''B''), (''qf_1'', ''C'', ''D''), (''qf_2'', ''E'', ''F''),
        (''qf_3'', ''G'', ''H'')]"
  by code_simp

text \<open>
  C5, amended. \<^verbatim>\<open>KnockoutController.generateQuarterfinals\<close> pairs each group winner with
  the runner-up of the opposite group. With four winners and four runners-up the round
  has four matches, match \<open>i\<close> being winner \<open>i\<close> at home to runner-up \<open>3 - i\<close>. With
  two winners and two runners-up the round has two matches: winner 0 at home to
  runner-up 1 and winner 1 at home to runner-up 0. The best third-placed teams play no
  part in either case, and the round is the first of the stage generated for 4 and
  for 2 groups.
\<close>

theorem C5_quarterfinal_pairings:
  "(length ws = 4 \<and> length rs = 4 \<longrightarrow>
      map (\<lambda>m. (homeTeam m, awayTeam m)) (generateQuarterfinals fresh ws rs bs)
        = [(team_of (q_team (ws ! 0)), team_of (q_team (rs ! 3))),
           (team_of (q_team (ws ! 1)), team_of (q_team (rs ! 2))),
           (team_of (q_team (ws ! 2)), team_of (q_team (rs ! 1))),
           (team_of (q_team (ws ! 3)), team_of (q_team (rs ! 0)))]
      \<and> length (generateQuarterfinals fresh ws rs bs) = 4)
   \<and> (length ws = 2 \<and> length rs = 2 \<longrightarrow>
      map (\<lambda>m. (homeTeam m, awayTeam m)) (generateQuarterfinals fresh ws rs bs)
        = [(team_of (q_team (ws ! 0)), team_of (q_team (rs ! 1))),
           (team_of (q_team (ws ! 1)), team_of (q_team (rs ! 0)))]
      \<and> length (generateQuarterfinals fresh ws rs bs) = 2)
   \<and> (n = 2 \<or> n = 4 \<longrightarrow>
      map round_matches (case knockout_rounds fresh q n of None \<Rightarrow> [] | Some x \<Rightarrow> x)
        = [generateQuarterfinals fresh (winners q) (runnersUp q) (bestThirds q),
           generateSemifinals fresh [], generateFinals fresh])"
proof (intro conjI impI)
  assume "length ws = 4 \<and> length rs = 4"
  then have "\<exists>a b c d. ws = [a, b, c, d]" and "\<exists>a b c d. rs = [a, b, c, d]"
    by (simp_all add: four_elements)
  then obtain w0 w1 w2 w3 r0 r1 r2 r3 where ws: "ws = [w0, w1, w2, w3]" and rs: "rs = [r0, r1, r2, r3]"
    by auto
  show four: "map (\<lambda>m. (homeTeam m, awayTeam m)) (generateQuarterfinals fresh ws rs bs)
        = [(team_of (q_team (ws ! 0)), team_of (q_team (rs ! 3))),
           (team_of (q_team (ws ! 1)), team_of (q_team (rs ! 2))),
           (team_of (q_team (ws ! 2)), team_of (q_team (rs ! 1))),
           (team_of (q_team (ws ! 3)), team_of (q_team (rs ! 0)))]"
    unfolding ws rs using generateQuarterfinals_four [of fresh w0 w1 w2 w3 r0 r1 r2 r3 bs] by simp
  show "length (generateQuarterfinals fresh ws rs bs) = 4"
    using arg_cong [OF four, of length] by simp
next
  assume "length ws = 2 \<and> length rs = 2"
  then have "\<exists>a b. ws = [a, b]" and "\<exists>a b. rs = [a, b]"
    by (simp_all add: two_elements)
  then obtain w0 w1 r0 r1 where ws: "ws = [w0, w1]" and rs: "rs = [r0, r1]"
    by auto
  show two: "map (\<lambda>m. (homeTeam m, awayTeam m)) (generateQuarterfinals fresh ws rs bs)
        = [(team_of (q_team (ws ! 0)), team_of (q_team (rs ! 1))),
           (team_of (q_team (ws ! 1)), team_of (q_team (rs ! 0)))]"
    unfolding ws rs using generateQuarterfinals_two [of fresh w0 w1 r0 r1 bs] by simp
  show "length (generateQuarterfinals fresh ws rs bs) = 2"
    using arg_cong [OF two, of length] by simp
next
  assume "n = 2 \<or> n = 4"
  then show "map round_matches (case knockout_rounds fresh q n of None \<Rightarrow> [] | Some x \<Rightarrow> x)
        = [generateQuarterfinals fresh (winners q) (runnersUp q) (bestThirds q),
           generateSemifinals fresh [], generateFinals fresh]"
    by (auto simp: knockout_rounds_def)
qed

theorem C5_quarterfinal_pairings_witness:
  "map (\<lambda>m. (team_name (homeTeam m), team_name (awayTeam m)))
       (generateQuarterfinals ''m'' (winners four_groups) (runnersUp four_groups) [])
     = [(''A'', ''H''), (''B'', ''G''), (''C'', ''F''), (''D'', ''E'')]
   \<and> map (\<lambda>m. (team_name (homeTeam m), team_name (awayTeam m)))
       (generateQuarterfinals ''m'' (winners two_groups) (runnersUp two_groups) [])
     = [(''A'', ''D''), (''C'', ''B'')]
   \<and> map (\<lambda>m. (team_name (homeTeam m), team_name (awayTeam m)))
       (hd (map round_matches example_bracket))
     = [(''A'', ''D''), (''C'', ''B'')]"
proof -
  have l4: "length (winners four_groups) = 4 \<and> length (runnersUp four_groups) = 4"
    by (simp add: four_groups_def)
  have l2: "length (winners two_groups) = 2 \<and> length (runnersUp two_groups) = 2"
    by (simp add: two_groups_def)
  note c4 = C5_quarterfinal_pairings [of "winners four_groups" "runnersUp four_groups" "''m''" "[]" 4 two_groups]
  note c2 = C5_quarterfinal_pairings [of "winners two_groups" "runnersUp two_groups" "''m''" "[]" 2 two_groups]
  from c4 l4 have p4: "map (\<lambda>m. (homeTeam m, awayTeam m))
      (generateQuarterfinals ''m'' (winners four_groups) (runnersUp four_groups) [])
        = [(team_of (q_team (winners four_groups ! 0)), team_of (q_team (runnersUp four_groups ! 3))),
           (team_of (q_team (winners four_groups ! 1)), team_of (q_team (runnersUp four_groups ! 2))),
           (team_of (q_team (winners four_groups ! 2)), team_of (q_team (runnersUp four_groups ! 1))),
           (team_of (q_team (winners four_groups ! 3)), team_of (q_team (runnersUp four_groups ! 0)))]"
    by blast
  from c2 l2 have p2: "map (\<lambda>m. (homeTeam m, awayTeam m))
      (generateQuarterfinals ''m'' (winners two_groups) (runnersUp two_groups) [])
        = [(team_of (q_team (winners two_groups ! 0)), team_of (q_team (runnersUp two_groups ! 1))),
           (team_of (q_team (winners two_groups ! 1)), team_of (q_team (runnersUp two_groups ! 0)))]"
    by blast
  from c2 have rounds: "map round_matches example_bracket
        = [generateQuarterfinals ''m'' (winners two_groups) (runnersUp two_groups) (bestThirds two_groups),
           generateSemifinals ''m'' [], generateFinals ''m'']"
    by (simp add: example_bracket_def)
  have b: "bestThirds two_groups = []"
    by (simp add: two_groups_def)
  have n4: "map (\<lambda>m. (team_name (homeTeam m), team_name (awayTeam m)))
       (generateQuarterfinals ''m'' (winners four_groups) (runnersUp four_groups) [])
     = map (\<lambda>p. (team_name (fst p), team_name (snd p)))
        (map (\<lambda>m. (homeTeam m, awayTeam m))
          (generateQuarterfinals ''m'' (winners four_groups) (runnersUp four_groups) []))"
    by (simp add: comp_def)
  have n2: "map (\<lambda>m. (team_name (homeTeam m), team_name (awayTeam m)))
       (generateQuarterfinals ''m'' (winners two_groups) (runnersUp two_groups) [])
     = map (\<lambda>p. (team_name (fst p), team_name (snd p)))
        (map (\<lambda>m. (homeTeam m, awayTeam m))
          (generateQuarterfinals ''m'' (winners two_groups) (runnersUp two_groups) []))"
    by (simp add: comp_def)
  show ?thesis
    unfolding n4 n2 rounds b list.sel p4 p2
    by (simp add: four_groups_def two_groups_def qual_def team_of_def initial_row_def
        teamA_def teamB_def teamC_def teamD_def)
qed

subsection \<open>A drawn knockout match\<close>

text \<open>A level regulation score with no extra time and no penalties, on any match: the
  match is played and has no winner. The step that is to make sure of a winner compares
  the same two scores again.\<close>

lemma knockout_result_level:
  "played (knockout_result m (JInt n) (JInt n) None None)
   \<and> winner (knockout_result m (JInt n) (JInt n) None None) = None"
  by (simp add: knockout_result_def updateResult_def Let_def)

text \<open>
  C2, on the code. The final between A and B is entered as 1-1 with no extra time and no
  penalties. Through \<^verbatim>\<open>KnockoutController.updateMatchResult\<close> the call succeeds, the match is
  played with no winner, and as the last round is now played the tournament is moved
  to stage complete and status completed, with a final that has no winner. Through \<^verbatim>\<open>Tournament.updateMatchResult\<close> the call
  succeeds and the match is played with no winner.
\<close>

theorem C2_drawn_knockout_match_has_no_winner:
  "(case KnockoutController_updateMatchResult final_only ''final_0'' (JInt 1) (JInt 1) None None of
      Inl e \<Rightarrow> False
    | Inr (c, ok) \<Rightarrow>
        ok
        \<and> map (\<lambda>m. (match_id m, played m, winner m)) (concat (map round_matches (kc_rounds c)))
            = [(''final_0'', True, None)]
        \<and> tc_currentStage c = Complete
        \<and> map_option status (tc_tournament c) = Some Completed)
   \<and> (case Tournament_updateMatchResult codeUnitCompare final_tournament ''final_0''
             (Num (JInt 1)) (Num (JInt 1)) of
        (t, ok) \<Rightarrow>
          ok
          \<and> map_option
                (\<lambda>rs. map (\<lambda>m. (match_id m, played m, winner m)) (concat (map round_matches rs)))
                (knockout t)
            = Some [(''final_0'', True, None)])"
  by code_simp

subsection \<open>Progression of a winner\<close>

lemma length_upd_match [simp]: "length (upd_match k p f rs) = length rs"
  by (simp add: upd_match_def)

lemma nth_upd_match:
  "k < length rs \<Longrightarrow>
   upd_match i p f rs ! k
     = (if i = k then (rs ! k)\<lparr>round_matches := upd p f (round_matches (rs ! k))\<rparr> else rs ! k)"
  by (simp add: upd_match_def nth_upd)

lemma titles_upd_match: "map round_title (upd_match k p f rs) = map round_title rs"
  by (simp add: upd_match_def map_upd_same)

lemma ids_upd_match:
  assumes "\<And>x. match_id (f x) = match_id x"
  shows "map (\<lambda>x. map match_id (round_matches x)) (upd_match k p f rs)
         = map (\<lambda>x. map match_id (round_matches x)) rs"
  unfolding upd_match_def
  by (rule map_upd_same) (simp add: map_upd_same assms)

lemma match_upd_match:
  assumes "k < length rs" and "j < length (round_matches (rs ! k))"
  shows "round_matches (upd_match i p f rs ! k) ! j
         = (if i = k \<and> p = j then f (round_matches (rs ! k) ! j) else round_matches (rs ! k) ! j)"
  using assms by (simp add: nth_upd_match nth_upd)

text \<open>The function that writes the winner into a slot keeps the identifier.\<close>

lemma slot_keeps_id:
  "match_id (if c then n\<lparr>homeTeam := w\<rparr> else n\<lparr>awayTeam := w\<rparr>) = match_id n"
  by simp

lemma progress_shape:
  "length (progressWinnerToNextRound rs m r i) = length rs
   \<and> map round_title (progressWinnerToNextRound rs m r i) = map round_title rs
   \<and> map (\<lambda>x. map match_id (round_matches x)) (progressWinnerToNextRound rs m r i)
       = map (\<lambda>x. map match_id (round_matches x)) rs"
  by (simp add: progressWinnerToNextRound_def Let_def titles_upd_match ids_upd_match
      split: option.splits)

lemma progress_written:
  assumes "winner m = Some w" and "r + 1 < length rs"
    and "i div 2 < length (round_matches (rs ! (r + 1)))"
  shows "progressWinnerToNextRound rs m r i
         = upd_match (r + 1) (i div 2)
             (\<lambda>n. if i mod 2 = 0 then n\<lparr>homeTeam := w\<rparr> else n\<lparr>awayTeam := w\<rparr>) rs"
  using assms by (simp add: progressWinnerToNextRound_def Let_def)

lemma progress_model:
  assumes "knockout t = Some rs" and "locate round_matches (match_id m) rs = Some (r, i)"
  shows "knockout (updateKnockoutProgression t m) = Some (progressWinnerToNextRound rs m r i)"
  using assms
  by (auto simp: updateKnockoutProgression_def progressWinnerToNextRound_def Let_def addEvent_def
      split: option.splits)

text \<open>
  C6. \<^verbatim>\<open>progressWinnerToNextRound\<close> never removes or reorders: the rounds, their names and
  the identifiers of their matches, in order, are the same afterwards, and so is the
  number of matches of every round. When the match at index \<open>i\<close> of a round that is not
  the last has a winner, and the next round has a match at index \<open>i div 2\<close>, the winner
  is written into that match, into the home slot when \<open>i\<close> is even and into the away
  slot when \<open>i\<close> is odd, and every other match of every round is as before.
  \<^verbatim>\<open>Tournament._updateKnockoutProgression\<close> leaves the rounds of the tournament in the same
  state, for the position at which it finds the match.
\<close>

theorem C6_progression_parity:
  "length (progressWinnerToNextRound rs m r i) = length rs
   \<and> map round_title (progressWinnerToNextRound rs m r i) = map round_title rs
   \<and> map (\<lambda>x. map match_id (round_matches x)) (progressWinnerToNextRound rs m r i)
       = map (\<lambda>x. map match_id (round_matches x)) rs
   \<and> map (\<lambda>x. length (round_matches x)) (progressWinnerToNextRound rs m r i)
       = map (\<lambda>x. length (round_matches x)) rs
   \<and> (winner m = Some w \<and> r + 1 < length rs \<and> i div 2 < length (round_matches (rs ! (r + 1)))
        \<longrightarrow> round_matches (progressWinnerToNextRound rs m r i ! (r + 1)) ! (i div 2)
              = (if even i then (round_matches (rs ! (r + 1)) ! (i div 2))\<lparr>homeTeam := w\<rparr>
                 else (round_matches (rs ! (r + 1)) ! (i div 2))\<lparr>awayTeam := w\<rparr>)
            \<and> (\<forall>k j. k < length rs \<and> j < length (round_matches (rs ! k))
                       \<and> (k, j) \<noteq> (r + 1, i div 2)
                  \<longrightarrow> round_matches (progressWinnerToNextRound rs m r i ! k) ! j
                        = round_matches (rs ! k) ! j))
   \<and> (knockout t = Some rs \<and> locate round_matches (match_id m) rs = Some (r, i)
        \<longrightarrow> knockout (updateKnockoutProgression t m) = Some (progressWinnerToNextRound rs m r i))"
proof (intro conjI impI allI)
  show "length (progressWinnerToNextRound rs m r i) = length rs"
    and "map round_title (progressWinnerToNextRound rs m r i) = map round_title rs"
    and ids: "map (\<lambda>x. map match_id (round_matches x)) (progressWinnerToNextRound rs m r i)
       = map (\<lambda>x. map match_id (round_matches x)) rs"
    using progress_shape [of rs m r i] by simp_all
  have "map (\<lambda>x. length (map match_id (round_matches x))) (progressWinnerToNextRound rs m r i)
      = map (\<lambda>x. length (map match_id (round_matches x))) rs"
    using arg_cong [OF ids, of "map length"] by (simp add: comp_def)
  then show "map (\<lambda>x. length (round_matches x)) (progressWinnerToNextRound rs m r i)
       = map (\<lambda>x. length (round_matches x)) rs"
    by simp
next
  assume a: "winner m = Some w \<and> r + 1 < length rs \<and> i div 2 < length (round_matches (rs ! (r + 1)))"
  then have eq: "progressWinnerToNextRound rs m r i
         = upd_match (r + 1) (i div 2)
             (\<lambda>n. if i mod 2 = 0 then n\<lparr>homeTeam := w\<rparr> else n\<lparr>awayTeam := w\<rparr>) rs"
    by (simp add: progress_written)
  from a show "round_matches (progressWinnerToNextRound rs m r i ! (r + 1)) ! (i div 2)
              = (if even i then (round_matches (rs ! (r + 1)) ! (i div 2))\<lparr>homeTeam := w\<rparr>
                 else (round_matches (rs ! (r + 1)) ! (i div 2))\<lparr>awayTeam := w\<rparr>)"
    unfolding eq by (simp add: match_upd_match even_iff_mod_2_eq_zero)
  fix k j
  assume "k < length rs \<and> j < length (round_matches (rs ! k)) \<and> (k, j) \<noteq> (r + 1, i div 2)"
  then show "round_matches (progressWinnerToNextRound rs m r i ! k) ! j = round_matches (rs ! k) ! j"
    unfolding eq by (auto simp: match_upd_match)
next
  assume "knockout t = Some rs \<and> locate round_matches (match_id m) rs = Some (r, i)"
  then show "knockout (updateKnockoutProgression t m) = Some (progressWinnerToNextRound rs m r i)"
    by (simp add: progress_model)
qed

lemma example_bracket_facts:
  "length example_bracket = 3"
  "length (round_matches (example_bracket ! 0)) = 2"
  "length (round_matches (example_bracket ! 1)) = 2"
  "homeTeam (round_matches (example_bracket ! 1) ! 0) = TBD"
  "map match_id (round_matches (example_bracket ! 1)) = [''semifinals_0'', ''semifinals_1'']"
  "winner decided_quarterfinal = Some teamC"
  "locate round_matches (match_id decided_quarterfinal) example_bracket = Some (0, 1)"
  "length (round_matches (example_bracket ! Suc 0)) = 2"
  "homeTeam (round_matches (example_bracket ! Suc 0) ! 0) = TBD"
  by code_simp+

theorem C6_progression_parity_witness:
  "length (progressWinnerToNextRound example_bracket decided_quarterfinal 0 1) = 3
   \<and> awayTeam (round_matches (progressWinnerToNextRound example_bracket decided_quarterfinal 0 1 ! 1) ! 0)
       = teamC
   \<and> homeTeam (round_matches (progressWinnerToNextRound example_bracket decided_quarterfinal 0 1 ! 1) ! 0)
       = TBD
   \<and> round_matches (progressWinnerToNextRound example_bracket decided_quarterfinal 0 1 ! 0) ! 0
       = round_matches (example_bracket ! 0) ! 0
   \<and> knockout (updateKnockoutProgression (final_tournament\<lparr>knockout := Some example_bracket\<rparr>)
        decided_quarterfinal)
       = Some (progressWinnerToNextRound example_bracket decided_quarterfinal 0 1)"
proof -
  note main = C6_progression_parity [of example_bracket decided_quarterfinal 0 1 teamC
      "final_tournament\<lparr>knockout := Some example_bracket\<rparr>"]
  have pre: "winner decided_quarterfinal = Some teamC \<and> 0 + 1 < length example_bracket
      \<and> 1 div 2 < length (round_matches (example_bracket ! (0 + 1)))"
    by (simp add: example_bracket_facts del: length_greater_0_conv)
  have other: "(0::nat) < length example_bracket \<and> (0::nat) < length (round_matches (example_bracket ! 0))
      \<and> (0::nat, 0::nat) \<noteq> (0 + 1, 1 div 2)"
    by (simp add: example_bracket_facts)
  have loc: "knockout (final_tournament\<lparr>knockout := Some example_bracket\<rparr>) = Some example_bracket
      \<and> locate round_matches (match_id decided_quarterfinal) example_bracket = Some (0, 1)"
    by (simp add: example_bracket_facts)
  from main pre have target:
    "round_matches (progressWinnerToNextRound example_bracket decided_quarterfinal 0 1 ! (0 + 1)) ! (1 div 2)
       = (if even (1::nat) then (round_matches (example_bracket ! (0 + 1)) ! (1 div 2))\<lparr>homeTeam := teamC\<rparr>
          else (round_matches (example_bracket ! (0 + 1)) ! (1 div 2))\<lparr>awayTeam := teamC\<rparr>)"
    by blast
  from main pre other have same:
    "round_matches (progressWinnerToNextRound example_bracket decided_quarterfinal 0 1 ! 0) ! 0
       = round_matches (example_bracket ! 0) ! 0"
    by blast
  from main loc have model:
    "knockout (updateKnockoutProgression (final_tournament\<lparr>knockout := Some example_bracket\<rparr>)
        decided_quarterfinal)
       = Some (progressWinnerToNextRound example_bracket decided_quarterfinal 0 1)"
    by blast
  from main have len: "length (progressWinnerToNextRound example_bracket decided_quarterfinal 0 1) = 3"
    by (simp add: example_bracket_facts)
  from target have "awayTeam (round_matches (progressWinnerToNextRound example_bracket decided_quarterfinal 0 1 ! 1) ! 0) = teamC"
    and "homeTeam (round_matches (progressWinnerToNextRound example_bracket decided_quarterfinal 0 1 ! 1) ! 0) = TBD"
    by (simp_all add: example_bracket_facts)
  with len same model show ?thesis
    by simp
qed

subsection \<open>The final\<close>

lemma locate_Some:
  "locate ms matchId cs = Some (r, i) \<Longrightarrow>
   r < length cs \<and> i < length (ms (cs ! r)) \<and> match_id (ms (cs ! r) ! i) = matchId"
proof (induction cs arbitrary: r)
  case Nil
  then show ?case by simp
next
  case (Cons c cs)
  show ?case
  proof (cases "findIndex (\<lambda>m. match_id m = matchId) (ms c)")
    case None
    with Cons.prems obtain r' where r': "locate ms matchId cs = Some (r', i)" "r = Suc r'"
      by auto
    with Cons.IH [of r'] show ?thesis by simp
  next
    case (Some pos)
    with Cons.prems have "r = 0" "i = pos" by simp_all
    with Some show ?thesis
      using findIndex_Some [of "\<lambda>m. match_id m = matchId" "ms c" pos] by simp
  qed
qed

lemma knockout_result_played: "played (knockout_result m hs as et pen)"
  by (simp add: knockout_result_def updateResult_def Let_def split: option.splits)

lemma kc_rounds_saveTournament [simp]: "kc_rounds (saveTournament c) = kc_rounds c"
  by (simp add: saveTournament_def split: option.splits)

lemma last_round_complete:
  assumes "r < length rs" and "r + 1 = length rs" and "i < length (round_matches (rs ! r))"
    and "\<forall>j < length (round_matches (rs ! r)). j \<noteq> i \<longrightarrow> played (round_matches (rs ! r) ! j)"
  shows "isTournamentComplete (upd_match r i (\<lambda>m. knockout_result m hs as et pen) rs)"
proof -
  let ?rs1 = "upd_match r i (\<lambda>m. knockout_result m hs as et pen) rs"
  from assms(1,2) have "rs \<noteq> []" and r: "r = length rs - 1" by auto
  then have "last ?rs1 = ?rs1 ! r"
    by (metis last_conv_nth length_upd_match length_0_conv)
  then have final: "round_matches (last ?rs1)
      = upd i (\<lambda>m. knockout_result m hs as et pen) (round_matches (rs ! r))"
    using assms(1) by (simp add: nth_upd_match)
  have "played x" if "x \<in> set (upd i (\<lambda>m. knockout_result m hs as et pen) (round_matches (rs ! r)))" for x
  proof -
    from that obtain j where j: "j < length (round_matches (rs ! r))"
      "x = upd i (\<lambda>m. knockout_result m hs as et pen) (round_matches (rs ! r)) ! j"
      by (metis in_set_conv_nth length_upd)
    show ?thesis
    proof (cases "j = i")
      case True
      with j show ?thesis by (simp add: nth_upd knockout_result_played)
    next
      case False
      with j assms(4) show ?thesis by (simp add: nth_upd)
    qed
  qed
  then show ?thesis
    using \<open>rs \<noteq> []\<close> by (simp add: isTournamentComplete_def final list_all_iff)
qed

lemma last_round_winner:
  assumes "r < length rs" and "r + 1 = length rs" and "0 < length (round_matches (rs ! r))"
    and "isTournamentComplete (upd_match r 0 f rs)"
  shows "getTournamentWinner (upd_match r 0 f rs) = winner (f (round_matches (rs ! r) ! 0))"
proof -
  let ?rs1 = "upd_match r 0 f rs"
  from assms(1,2) have "rs \<noteq> []" and r: "r = length rs - 1" by auto
  then have "last ?rs1 = ?rs1 ! r"
    by (metis last_conv_nth length_upd_match length_0_conv)
  then have final: "round_matches (last ?rs1) = upd 0 f (round_matches (rs ! r))"
    using assms(1) by (simp add: nth_upd_match)
  from assms(3) obtain x xs where xs: "round_matches (rs ! r) = x # xs"
    by (cases "round_matches (rs ! r)") auto
  then have "upd 0 f (round_matches (rs ! r)) = f x # xs"
    by (simp add: upd_def)
  with assms(4) \<open>rs \<noteq> []\<close> xs show ?thesis
    by (simp add: getTournamentWinner_def final)
qed

text \<open>The controller state after the notification that the tournament is completed.\<close>

lemma notifyTournamentCompleted_state:
  assumes "\<not> tc_isLoading c" and "tc_tournament c = Some t"
  shows "notifyTournamentCompleted w c
         = Inr (c\<lparr>tc_currentStage := Complete,
                  tc_tournament := Some (t\<lparr>status := Completed, currentStage := Complete,
                                           groups := gc_groups c, knockout := Some (kc_rounds c)\<rparr>)\<rparr>)"
  using assms
  by (simp add: notifyTournamentCompleted_def setCurrentStage_def saveTournament_def Let_def)

lemma final_update:
  assumes loc: "locate round_matches matchId (kc_rounds c) = Some (r, i)"
    and last: "r + 1 = length (kc_rounds c)"
    and others: "\<forall>j < length (round_matches (kc_rounds c ! r)). j \<noteq> i \<longrightarrow>
                   played (round_matches (kc_rounds c ! r) ! j)"
    and "kc_linked c" and "\<not> tc_isLoading c" and "tc_tournament c = Some t"
  shows "KnockoutController_updateMatchResult c matchId hs as et pen
         = Inr (c\<lparr>kc_rounds := upd_match r i (\<lambda>m. knockout_result m hs as et pen) (kc_rounds c),
                  tc_currentStage := Complete,
                  tc_tournament :=
                    Some (t\<lparr>status := Completed, currentStage := Complete, groups := gc_groups c,
                            knockout := Some (upd_match r i (\<lambda>m. knockout_result m hs as et pen)
                                               (kc_rounds c))\<rparr>)\<rparr>,
                True)"
proof -
  let ?rs1 = "upd_match r i (\<lambda>m. knockout_result m hs as et pen) (kc_rounds c)"
  let ?m = "round_matches (?rs1 ! r) ! i"
  from loc have r: "r < length (kc_rounds c)" and i: "i < length (round_matches (kc_rounds c ! r))"
    using locate_Some by blast+
  have prog: "progressWinnerToNextRound ?rs1 ?m r i = ?rs1"
    using last by (simp add: progressWinnerToNextRound_def split: option.splits)
  have complete: "isTournamentComplete ?rs1"
    using r last i others by (rule last_round_complete)
  let ?c2 = "c\<lparr>kc_rounds := ?rs1\<rparr>"
  let ?c3 = "notifyKnockoutMatchUpdated ?c2"
  have c3: "?c3 = ?c2\<lparr>tc_tournament := Some (t\<lparr>currentStage := tc_currentStage c, groups := gc_groups c,
                                               knockout := Some ?rs1\<rparr>)\<rparr>"
    using assms(5,6) by (simp add: notifyKnockoutMatchUpdated_def saveTournament_def)
  have c3_rounds: "kc_rounds ?c3 = ?rs1"
    by (simp add: c3)
  have notified: "notifyTournamentCompleted (getTournamentWinner ?rs1) ?c3
      = Inr (?c3\<lparr>tc_currentStage := Complete,
                 tc_tournament := Some ((t\<lparr>currentStage := tc_currentStage c, groups := gc_groups c,
                                            knockout := Some ?rs1\<rparr>)
                                          \<lparr>status := Completed, currentStage := Complete,
                                           groups := gc_groups ?c3, knockout := Some (kc_rounds ?c3)\<rparr>)\<rparr>)"
    by (rule notifyTournamentCompleted_state) (simp_all add: c3 assms(5))
  show ?thesis
    unfolding KnockoutController_updateMatchResult_def loc option.case prod.case Let_def prog
    using assms(4) complete notified
    by (simp add: c3)
qed

text \<open>The final decided through \<^verbatim>\<open>KnockoutController.updateMatchResult\<close>: what the
  controllers hold afterwards.\<close>

lemma controller_final_decided:
  assumes "locate round_matches matchId (kc_rounds c) = Some (r, i)"
    and "r + 1 = length (kc_rounds c)"
    and "winner (knockout_result (round_matches (kc_rounds c ! r) ! i) hs as et pen) = Some w"
    and "\<forall>j < length (round_matches (kc_rounds c ! r)). j \<noteq> i \<longrightarrow>
           played (round_matches (kc_rounds c ! r) ! j)"
    and "kc_linked c" and "\<not> tc_isLoading c" and "tc_tournament c = Some t"
  shows "\<exists>c'. KnockoutController_updateMatchResult c matchId hs as et pen = Inr (c', True)
           \<and> tc_currentStage c' = Complete
           \<and> map_option currentStage (tc_tournament c') = Some Complete
           \<and> map_option status (tc_tournament c') = Some Completed
           \<and> kc_rounds c' = upd_match r i (\<lambda>m. knockout_result m hs as et pen) (kc_rounds c)
           \<and> map_option knockout (tc_tournament c') = Some (Some (kc_rounds c'))
           \<and> isTournamentComplete (kc_rounds c')
           \<and> (i = 0 \<longrightarrow> getTournamentWinner (kc_rounds c') = Some w)"
proof -
  let ?rs1 = "upd_match r i (\<lambda>m. knockout_result m hs as et pen) (kc_rounds c)"
  from assms(1) have r: "r < length (kc_rounds c)" and i: "i < length (round_matches (kc_rounds c ! r))"
    using locate_Some by blast+
  have complete: "isTournamentComplete ?rs1"
    using r assms(2) i assms(4) by (rule last_round_complete)
  have champion: "getTournamentWinner ?rs1 = Some w" if "i = 0"
  proof -
    from that i have "0 < length (round_matches (kc_rounds c ! r))" by simp
    with r assms(2) have "getTournamentWinner (upd_match r 0 (\<lambda>m. knockout_result m hs as et pen) (kc_rounds c))
        = winner (knockout_result (round_matches (kc_rounds c ! r) ! 0) hs as et pen)"
      using complete that by (intro last_round_winner) simp_all
    with that assms(3) show ?thesis by simp
  qed
  show ?thesis
    unfolding final_update [OF assms(1,2,4,5,6,7)]
    using complete champion by simp
qed

lemma final_only_facts:
  "locate round_matches ''final_0'' (kc_rounds final_only) = Some (0, 0)"
  "length (kc_rounds final_only) = 1"
  "length (round_matches (kc_rounds final_only ! 0)) = 1"
  "winner (knockout_result (round_matches (kc_rounds final_only ! 0) ! 0) (JInt 2) (JInt 1) None None)
     = Some teamA"
  "kc_linked final_only" "\<not> tc_isLoading final_only"
  by code_simp+

subsection \<open>The final in the tournament model\<close>

lemma findIndex_by_ids:
  "map match_id xs = map match_id ys \<Longrightarrow>
   findIndex (\<lambda>m. match_id m = matchId) xs = findIndex (\<lambda>m. match_id m = matchId) ys"
proof (induction xs arbitrary: ys)
  case Nil
  then show ?case by simp
next
  case (Cons x xs)
  then obtain y ys' where "ys = y # ys'" "match_id x = match_id y" "map match_id xs = map match_id ys'"
    by (cases ys) auto
  with Cons.IH [of ys'] show ?case by simp
qed

lemma locate_by_ids:
  "map (\<lambda>x. map match_id (round_matches x)) rs = map (\<lambda>x. map match_id (round_matches x)) rs' \<Longrightarrow>
   locate round_matches matchId rs = locate round_matches matchId rs'"
proof (induction rs arbitrary: rs')
  case Nil
  then show ?case by simp
next
  case (Cons x xs)
  then obtain y ys where ys: "rs' = y # ys"
    "map match_id (round_matches x) = map match_id (round_matches y)"
    "map (\<lambda>x. map match_id (round_matches x)) xs = map (\<lambda>x. map match_id (round_matches x)) ys"
    by (cases rs') auto
  from ys(2) have "findIndex (\<lambda>m. match_id m = matchId) (round_matches x)
      = findIndex (\<lambda>m. match_id m = matchId) (round_matches y)"
    by (rule findIndex_by_ids)
  with Cons.IH [OF ys(3)] ys(1) show ?case by (simp split: option.splits)
qed

lemma Helpers_update_keeps_id: "match_id (Helpers_updateMatchResult m hs as) = match_id m"
  by (simp add: Helpers_updateMatchResult_def Let_def)

text \<open>
  When the final is decided through \<^verbatim>\<open>Tournament.updateMatchResult\<close>, the model records
  the status and two events, the name of the champion among them. It does not write
  its current stage, which stays at knockout: the move to stage complete is the
  tournament controller's.
\<close>

lemma Tournament_final_decided:
  assumes "currentStage t = KnockoutStage" and "knockout t = Some rs"
    and loc: "locate round_matches matchId rs = Some (r, i)" and last: "r + 1 = length rs"
    and w: "winner (Helpers_updateMatchResult (round_matches (rs ! r) ! i) hs as) = Some w"
  shows "Tournament_updateMatchResult lc t matchId hs as
         = (t\<lparr>knockout := Some (upd_match r i (\<lambda>m. Helpers_updateMatchResult m hs as) rs),
              status := Completed,
              events := events t @ [Tournament_completed (team_name w), Match_updated matchId hs as]\<rparr>,
            True)"
proof -
  let ?rs1 = "upd_match r i (\<lambda>m. Helpers_updateMatchResult m hs as) rs"
  from loc have r: "r < length rs" and i: "i < length (round_matches (rs ! r))"
    using locate_Some by blast+
  have m: "round_matches (?rs1 ! r) ! i = Helpers_updateMatchResult (round_matches (rs ! r) ! i) hs as"
    using r i by (simp add: match_upd_match)
  have "map (\<lambda>x. map match_id (round_matches x)) ?rs1 = map (\<lambda>x. map match_id (round_matches x)) rs"
    by (rule ids_upd_match) (rule Helpers_update_keeps_id)
  then have "locate round_matches matchId ?rs1 = locate round_matches matchId rs"
    by (rule locate_by_ids)
  with loc have loc1: "locate round_matches (match_id (round_matches (?rs1 ! r) ! i)) ?rs1 = Some (r, i)"
    using locate_Some [OF loc] by (simp add: m Helpers_update_keeps_id)
  have prog: "updateKnockoutProgression (t\<lparr>knockout := Some ?rs1\<rparr>) (round_matches (?rs1 ! r) ! i)
      = addEvent (Tournament_completed (team_name w)) (t\<lparr>knockout := Some ?rs1, status := Completed\<rparr>)"
    unfolding updateKnockoutProgression_def
    using loc1 last w by (simp add: m)
  show ?thesis
    unfolding Tournament_updateMatchResult_def Let_def
    using assms(1,2) loc prog by (simp add: addEvent_def)
qed

subsection \<open>Progression inside the update operations\<close>

lemma kc_rounds_notifyKnockoutMatchUpdated [simp]:
  "kc_rounds (notifyKnockoutMatchUpdated c) = kc_rounds c"
  by (simp add: notifyKnockoutMatchUpdated_def)

lemma kc_rounds_notifyTournamentCompleted:
  "notifyTournamentCompleted w c = Inr c' \<Longrightarrow> kc_rounds c' = kc_rounds c"
  by (auto simp: notifyTournamentCompleted_def setCurrentStage_def Let_def
      split: if_splits option.splits)

text \<open>The rounds after \<^verbatim>\<open>KnockoutController.updateMatchResult\<close>: the match found is
  rewritten, then its winner is progressed from the position at which it was found.\<close>

lemma KnockoutController_update_rounds:
  assumes "locate round_matches matchId (kc_rounds c) = Some (r, i)"
    and "KnockoutController_updateMatchResult c matchId hs as et pen = Inr (c', ok)"
  shows "ok \<and> kc_rounds c'
           = progressWinnerToNextRound
               (upd_match r i (\<lambda>m. knockout_result m hs as et pen) (kc_rounds c))
               (round_matches (upd_match r i (\<lambda>m. knockout_result m hs as et pen) (kc_rounds c) ! r) ! i)
               r i"
  using assms
  by (auto simp: KnockoutController_updateMatchResult_def Let_def
      dest: kc_rounds_notifyTournamentCompleted split: if_splits sum.splits)

text \<open>The rounds after \<^verbatim>\<open>Tournament.updateMatchResult\<close> in the knockout stage, likewise.\<close>

lemma Tournament_update_rounds:
  assumes "currentStage t = KnockoutStage" and "knockout t = Some rs"
    and loc: "locate round_matches matchId rs = Some (r, i)"
  shows "knockout (fst (Tournament_updateMatchResult lc t matchId hs as))
         = Some (progressWinnerToNextRound
                   (upd_match r i (\<lambda>m. Helpers_updateMatchResult m hs as) rs)
                   (round_matches (upd_match r i (\<lambda>m. Helpers_updateMatchResult m hs as) rs ! r) ! i)
                   r i)"
proof -
  let ?rs1 = "upd_match r i (\<lambda>m. Helpers_updateMatchResult m hs as) rs"
  let ?m = "round_matches (?rs1 ! r) ! i"
  from loc have r: "r < length rs" and i: "i < length (round_matches (rs ! r))"
    and mid: "match_id (round_matches (rs ! r) ! i) = matchId"
    using locate_Some by blast+
  have m: "?m = Helpers_updateMatchResult (round_matches (rs ! r) ! i) hs as"
    using r i by (simp add: match_upd_match)
  have "map (\<lambda>x. map match_id (round_matches x)) ?rs1 = map (\<lambda>x. map match_id (round_matches x)) rs"
    by (rule ids_upd_match) (rule Helpers_update_keeps_id)
  then have "locate round_matches matchId ?rs1 = locate round_matches matchId rs"
    by (rule locate_by_ids)
  with loc mid have "locate round_matches (match_id ?m) ?rs1 = Some (r, i)"
    by (simp add: m Helpers_update_keeps_id)
  then have "knockout (updateKnockoutProgression (t\<lparr>knockout := Some ?rs1\<rparr>) ?m)
      = Some (progressWinnerToNextRound ?rs1 ?m r i)"
    by (intro progress_model) simp_all
  then show ?thesis
    unfolding Tournament_updateMatchResult_def Let_def
    using assms by (simp add: addEvent_def)
qed

subsection \<open>The final on both update paths\<close>

lemma progression_in_last_round:
  assumes "knockout u = Some rs" and "locate round_matches (match_id m) rs = Some (r, i)"
    and "r + 1 = length rs" and "winner m = Some w"
  shows "updateKnockoutProgression u m
         = addEvent (Tournament_completed (team_name w)) (u\<lparr>status := Completed\<rparr>)"
  using assms by (simp add: updateKnockoutProgression_def)

lemma final_tournament_facts:
  "currentStage final_tournament = KnockoutStage"
  "knockout final_tournament = Some (kc_rounds final_only)"
  "tc_tournament final_only = Some final_tournament"
  "round_matches (kc_rounds final_only ! 0) ! 0 = example_final"
  "match_id (Helpers_updateMatchResult example_final (Num (JInt 2)) (Num (JInt 1))) = ''final_0''"
  "winner (Helpers_updateMatchResult example_final (Num (JInt 2)) (Num (JInt 1))) = Some teamA"
  "team_name teamA = ''A''"
  "events final_tournament = []"
  by (simp_all add: final_tournament_def final_only_def Helpers_updateMatchResult_def Let_def
      example_final_fields teamA_def)

lemma example_final_decided:
  "winner (knockout_result example_final (JInt 2) (JInt 1) None None) = Some teamA"
  by code_simp




end
